theory Spec2Isabelle
  imports Complex_Main "HOL-Library.Word" "HOL-Library.Multiset"
begin

unbundle bit_operations_syntax

section \<open>Strings and numbers of the host language\<close>

text \<open>
  A JavaScript string is a sequence of UTF-16 code units; \<open>charCodeAt\<close> reads one unit
  and \<open>length\<close> counts them. ASCII literals of the source are written with \<open>str\<close>.
\<close>

type_synonym jsstring = "16 word list"

definition str :: "string \<Rightarrow> jsstring" where
  "str s = map (\<lambda>c. of_nat (of_char c)) s"

text \<open>Decimal rendering of a non-negative integer, as a template literal does.\<close>

fun numToString :: "nat \<Rightarrow> jsstring" where
  "numToString n =
     (if n < 10 then [of_nat (48 + n)]
      else numToString (n div 10) @ [of_nat (48 + n mod 10)])"

declare numToString.simps [simp del]

text \<open>\<open>a || b\<close> and truthiness, for values that are a string or \<open>undefined\<close>.\<close>

fun truthy :: "jsstring option \<Rightarrow> bool" where
  "truthy None = False"
| "truthy (Some s) = (s \<noteq> [])"

definition js_or :: "jsstring option \<Rightarrow> jsstring option \<Rightarrow> jsstring option" where
  "js_or a b = (if truthy a then a else b)"

definition orEmpty :: "jsstring option \<Rightarrow> jsstring" where
  "orEmpty a = (case js_or a (Some []) of None \<Rightarrow> [] | Some s \<Rightarrow> s)"

text \<open>The code units of a string read as one number in base \<open>2^16\<close>.\<close>

definition stringKey :: "jsstring \<Rightarrow> nat" where
  "stringKey s = foldl (\<lambda>a c. a * 65536 + unat c) 0 s"

section \<open>The tarot deck (\<open>buildTarotDeck78\<close>)\<close>

datatype Arcana = Major | Minor

datatype Suit = Wands | Cups | Swords | Pentacles

fun suitName :: "Suit \<Rightarrow> jsstring" where
  "suitName Wands = str ''Wands''"
| "suitName Cups = str ''Cups''"
| "suitName Swords = str ''Swords''"
| "suitName Pentacles = str ''Pentacles''"

record TarotCard =
  card_id :: jsstring
  arcana :: Arcana
  name :: jsstring
  suit :: "Suit option"
  rank :: "jsstring option"

definition majorNames :: "jsstring list" where
  "majorNames = map str
     [''The Fool'', ''The Magician'', ''The High Priestess'', ''The Empress'',
      ''The Emperor'', ''The Hierophant'', ''The Lovers'', ''The Chariot'',
      ''Strength'', ''The Hermit'', ''Wheel of Fortune'', ''Justice'',
      ''The Hanged Man'', ''Death'', ''Temperance'', ''The Devil'', ''The Tower'',
      ''The Star'', ''The Moon'', ''The Sun'', ''Judgement'', ''The World'']"

definition majors :: "TarotCard list" where
  "majors = map (\<lambda>(i, nm).
       \<lparr>card_id = str ''M-'' @ numToString i, arcana = Major, name = nm,
        suit = None, rank = None\<rparr>)
     (enumerate 0 majorNames)"

definition suits :: "Suit list" where
  "suits = [Wands, Cups, Swords, Pentacles]"

definition minorRanks :: "jsstring list" where
  "minorRanks =
     [str ''Ace'', str ''2'', str ''3'', str ''4'', str ''5'', str ''6'', str ''7'',
      str ''8'', str ''9'', str ''10'', str ''Page'', str ''Knight'', str ''Queen'',
      str ''King'']"

definition minors :: "TarotCard list" where
  "minors = concat (map (\<lambda>s. map (\<lambda>r.
       \<lparr>card_id = str ''m-'' @ suitName s @ str ''-'' @ r, arcana = Minor,
        name = r @ str '' of '' @ suitName s, suit = Some s, rank = Some r\<rparr>)
     minorRanks) suits)"

definition buildTarotDeck78 :: "TarotCard list" where
  "buildTarotDeck78 = majors @ minors"

section \<open>Seeded generator (\<open>xmur3\<close>, \<open>mulberry32\<close>, \<open>makeSeededRng\<close>)\<close>

text \<open>
  The bitwise operators of the source work on the 32-bit two's complement image of their
  operands (\<open>ToInt32\<close>, \<open>ToUint32\<close>), so intermediate values are \<open>32 word\<close>s:
  \<open>^\<close> is \<open>XOR\<close>, \<open>|\<close> is \<open>OR\<close>, \<open><<\<close> is \<open>push_bit\<close>, \<open>>>>\<close> is \<open>drop_bit\<close>
  and \<open>Math.imul\<close> is the wrapping product.
\<close>

type_synonym i32 = "32 word"

definition imul :: "i32 \<Rightarrow> i32 \<Rightarrow> i32" where
  "imul a b = a * b"

fun xmur3_loop :: "i32 \<Rightarrow> jsstring \<Rightarrow> i32" where
  "xmur3_loop h [] = h"
| "xmur3_loop h (c # cs) =
     (let h1 = imul (h XOR ucast c) 3432918353;
          h2 = push_bit 13 h1 OR drop_bit 19 h1
      in xmur3_loop h2 cs)"

text \<open>\<open>xmur3 s\<close> is the value of \<open>h\<close> captured by the closure that \<open>xmur3(str)\<close> returns.\<close>

definition xmur3 :: "jsstring \<Rightarrow> i32" where
  "xmur3 s = xmur3_loop (1779033703 XOR of_nat (length s)) s"

text \<open>One call of that closure: the number returned (\<open>h >>> 0\<close>) and the new \<open>h\<close>.\<close>

definition xmur3_next :: "i32 \<Rightarrow> int \<times> i32" where
  "xmur3_next h =
     (let h1 = imul (h XOR drop_bit 16 h) 2246822507;
          h2 = imul (h1 XOR drop_bit 13 h1) 3266489909;
          h3 = h2 XOR drop_bit 16 h2
      in (uint h3, h3))"

text \<open>
  A JavaScript number. The generator only produces \<open>k / 2^32\<close> with \<open>k < 2^32\<close>, and the
  shuffle multiplies such a value by an array length: both are exact in double
  precision for every array shorter than \<open>2^21\<close>, so finite numbers are rationals and the
  arithmetic on them is exact. The non-finite values are kept, since an arbitrary
  generator may return them.
\<close>

datatype jsnum = Num rat | NaN | PosInf | NegInf

text \<open>\<open>x < c\<close> for a finite constant \<open>c\<close>.\<close>

fun js_less :: "jsnum \<Rightarrow> rat \<Rightarrow> bool" where
  "js_less (Num r) c = (r < c)"
| "js_less NaN c = False"
| "js_less PosInf c = False"
| "js_less NegInf c = True"

text \<open>
  \<open>mulberry32(seed)\<close> returns a closure over the number \<open>seed\<close>. The closure adds
  \<open>0x6d2b79f5\<close> to \<open>seed\<close> without truncating it (the sum stays an exact integer for
  several million calls), and only the bitwise operators reduce it modulo \<open>2^32\<close>.
  \<open>mulberry32 seed\<close> is one call: the number returned and the new captured \<open>seed\<close>.
\<close>

definition mulberry32 :: "int \<Rightarrow> jsnum \<times> int" where
  "mulberry32 seed =
     (let seed' = seed + 0x6d2b79f5;
          t0 = (of_int seed' :: i32);
          t1 = imul (t0 XOR drop_bit 15 t0) (t0 OR 1);
          t2 = t1 XOR (t1 + imul (t1 XOR drop_bit 7 t1) (t1 OR 61))
      in (Num (of_int (uint (t2 XOR drop_bit 14 t2)) / 4294967296), seed'))"

text \<open>\<open>makeSeededRng s\<close> is the initial captured \<open>seed\<close> of the generator it returns.\<close>

definition makeSeededRng :: "jsstring \<Rightarrow> int" where
  "makeSeededRng seedStr = (let seedFn = xmur3 seedStr; seed = fst (xmur3_next seedFn) in seed)"

section \<open>Arrays in a store, and \<open>shuffleSeeded\<close>\<close>

text \<open>
  An array object: its indexed elements, where \<open>None\<close> is \<open>undefined\<close> (or a hole, which
  reads as \<open>undefined\<close>), and the properties stored under numeric keys that are not array
  indices. Reading past the end gives \<open>undefined\<close>; writing past the end extends the array.
\<close>

record 'a jsarray =
  elems :: "'a option list"
  props :: "jsnum \<Rightarrow> 'a option"

text \<open>A number is an array index when it is an integer from \<open>0\<close> to \<open>2^32 - 2\<close>.\<close>

fun arrayIndex :: "jsnum \<Rightarrow> nat option" where
  "arrayIndex (Num r) =
     (if r = of_int \<lfloor>r\<rfloor> \<and> 0 \<le> r \<and> r < 4294967295 then Some (nat \<lfloor>r\<rfloor>) else None)"
| "arrayIndex NaN = None"
| "arrayIndex PosInf = None"
| "arrayIndex NegInf = None"

definition array_get :: "'a jsarray \<Rightarrow> jsnum \<Rightarrow> 'a option" where
  "array_get a k =
     (case arrayIndex k of
        Some n \<Rightarrow> (if n < length (elems a) then elems a ! n else None)
      | None \<Rightarrow> props a k)"

definition array_set :: "'a jsarray \<Rightarrow> jsnum \<Rightarrow> 'a option \<Rightarrow> 'a jsarray" where
  "array_set a k v =
     (case arrayIndex k of
        Some n \<Rightarrow>
          (if n < length (elems a) then a\<lparr>elems := (elems a)[n := v]\<rparr>
           else a\<lparr>elems := elems a @ replicate (n - length (elems a)) None @ [v]\<rparr>)
      | None \<Rightarrow> a\<lparr>props := (props a)(k := v)\<rparr>)"

text \<open>
  The store: the array objects allocated so far; an address is a position in it, and a
  new object is appended.
\<close>

type_synonym addr = nat
type_synonym 'a heap = "'a jsarray list"

definition heap_get :: "'a heap \<Rightarrow> addr \<Rightarrow> jsnum \<Rightarrow> 'a option" where
  "heap_get h q k = array_get (h ! q) k"

definition heap_set :: "'a heap \<Rightarrow> addr \<Rightarrow> jsnum \<Rightarrow> 'a option \<Rightarrow> 'a heap" where
  "heap_set h q k v = h[q := array_set (h ! q) k v]"

text \<open>\<open>Math.floor(r * n)\<close> for a positive integer \<open>n\<close>.\<close>

fun scaleFloor :: "jsnum \<Rightarrow> nat \<Rightarrow> jsnum" where
  "scaleFloor (Num r) n = Num (of_int \<lfloor>r * of_nat n\<rfloor>)"
| "scaleFloor NaN n = NaN"
| "scaleFloor PosInf n = PosInf"
| "scaleFloor NegInf n = NegInf"

text \<open>
  The generator is a closure over private state \<open>'s\<close>: a call returns a number and the
  new state. The loop \<open>for (i = a.length - 1; i > 0; i--)\<close> on the array at address \<open>q\<close>;
  the swap reads \<open>a[j]\<close> and \<open>a[i]\<close>, then writes \<open>a[i]\<close> and \<open>a[j]\<close>.
\<close>

fun shuffle_loop ::
  "('s \<Rightarrow> jsnum \<times> 's) \<Rightarrow> addr \<Rightarrow> nat \<Rightarrow> 'a heap \<times> 's \<Rightarrow> 'a heap \<times> 's" where
  "shuffle_loop rng q 0 (h, s) = (h, s)"
| "shuffle_loop rng q (Suc k) (h, s) =
     (let i = Suc k;
          (r, s') = rng s;
          j = scaleFloor r (i + 1);
          aj = heap_get h q j;
          ai = heap_get h q (Num (of_nat i));
          h1 = heap_set h q (Num (of_nat i)) aj;
          h2 = heap_set h1 q j ai
      in shuffle_loop rng q k (h2, s'))"

text \<open>
  \<open>shuffleSeeded(arr, rng)\<close> with \<open>arr\<close> at address \<open>p\<close>: the spread \<open>[...arr]\<close> allocates a
  new array holding the indexed elements of \<open>arr\<close>. The result is the address returned,
  the new store and the new state of the generator.
\<close>

definition shuffleSeeded ::
  "'a heap \<Rightarrow> addr \<Rightarrow> ('s \<Rightarrow> jsnum \<times> 's) \<Rightarrow> 's \<Rightarrow> addr \<times> 'a heap \<times> 's" where
  "shuffleSeeded h p rng s =
     (let a = \<lparr>elems = elems (h ! p), props = (\<lambda>k. None)\<rparr>;
          q = length h;
          h0 = h @ [a];
          (h', s') = shuffle_loop rng q (length (elems a) - 1) (h0, s)
      in (q, h', s'))"

section \<open>The spread component (\<open>TarotSpreadPick\<close>)\<close>

text \<open>\<open>String.prototype.trim\<close> removes white space and line terminators at both ends.\<close>

definition isWhiteSpace :: "16 word \<Rightarrow> bool" where
  "isWhiteSpace c \<longleftrightarrow>
     c \<in> set [0x09, 0x0A, 0x0B, 0x0C, 0x0D, 0x20, 0xA0, 0x1680, 0x2028, 0x2029,
               0x202F, 0x205F, 0x3000, 0xFEFF]
     \<or> (0x2000 \<le> c \<and> c \<le> 0x200A)"

definition trim :: "jsstring \<Rightarrow> jsstring" where
  "trim s = rev (dropWhile isWhiteSpace (rev (dropWhile isWhiteSpace s)))"

text \<open>The \<open>useState\<close> cells of the component. \<open>provider\<close> and \<open>drawCount\<close> are constants.\<close>

record spread_state =
  topic :: jsstring
  isInterpreting :: bool
  resultText :: "jsstring option"
  errorText :: "jsstring option"
  isResultOpen :: bool
  isDeckVisible :: bool
  isDeckAnimating :: bool
  showInitialCards :: bool
  seed :: jsstring
  pickedIds :: "jsstring list"

definition provider :: jsstring where
  "provider = str ''gemini''"

definition drawCount :: nat where
  "drawCount = 5"

text \<open>
  \<open>baseDeck\<close> is built once and \<open>deck\<close> is the shuffle of it by the generator of the
  current seed. No entry of the result is \<open>undefined\<close> (lemma \<open>deck_elems\<close> below), so
  \<open>the\<close> is applied to defined entries only.
\<close>

definition baseDeck :: "TarotCard jsarray" where
  "baseDeck = \<lparr>elems = map Some buildTarotDeck78, props = (\<lambda>k. None)\<rparr>"

definition deckArray :: "jsstring \<Rightarrow> TarotCard jsarray" where
  "deckArray seedStr =
     (let rng = makeSeededRng seedStr;
          (q, h, s) = shuffleSeeded [baseDeck] 0 mulberry32 rng
      in h ! q)"

definition deck :: "spread_state \<Rightarrow> TarotCard list" where
  "deck st = map the (elems (deckArray (seed st)))"

definition isReversed :: "spread_state \<Rightarrow> jsstring \<Rightarrow> bool" where
  "isReversed st cardId =
     (let r = fst (mulberry32 (makeSeededRng (seed st @ str ''::rev::'' @ cardId)))
      in js_less r (1 / 2))"

record PickedCard =
  card :: TarotCard
  reversed :: bool

text \<open>
  \<open>pickedCards\<close>: each picked id is looked up in a \<open>Map\<close> built from the deck (a later
  entry for the same key replaces an earlier one) and ids that are not found are dropped.
\<close>

definition pickedCards :: "spread_state \<Rightarrow> PickedCard list" where
  "pickedCards st =
     (let m = map_of (rev (map (\<lambda>c. (card_id c, c)) (deck st)))
      in map (\<lambda>c. \<lparr>card = c, reversed = isReversed st (card_id c)\<rparr>)
           (List.map_filter m (pickedIds st)))"

definition canPickMore :: "spread_state \<Rightarrow> bool" where
  "canPickMore st \<longleftrightarrow> length (pickedIds st) < drawCount"

definition pick :: "spread_state \<Rightarrow> jsstring \<Rightarrow> spread_state" where
  "pick st cardId =
     (if cardId \<in> set (pickedIds st) then st
      else if \<not> canPickMore st then st
      else st\<lparr>pickedIds := pickedIds st @ [cardId]\<rparr>)"

text \<open>\<open>newSeed\<close>; \<open>s\<close> is the string that \<open>randomSeedString()\<close> returns.\<close>

definition newSeed :: "spread_state \<Rightarrow> jsstring \<Rightarrow> spread_state" where
  "newSeed st s =
     st\<lparr>seed := s, pickedIds := [], isDeckVisible := True, isResultOpen := False,
        resultText := None, errorText := None, showInitialCards := False\<rparr>"

definition canInterpret :: "spread_state \<Rightarrow> bool" where
  "canInterpret st \<longleftrightarrow>
     length (trim (topic st)) > 0 \<and> length (pickedCards st) = drawCount"

subsection \<open>Asking for the interpretation (\<open>interpret\<close>)\<close>

text \<open>
  A thrown value: an \<open>Error\<close> object with its message, or any other value with its
  \<open>String(...)\<close> rendering. \<open>errMessage\<close> is the recurring
  \<open>err instanceof Error ? err.message : "Unknown error"\<close>.
\<close>

datatype exn = ErrorObj jsstring | NonError jsstring

fun errMessage :: "exn \<Rightarrow> jsstring" where
  "errMessage (ErrorObj m) = m"
| "errMessage (NonError v) = str ''Unknown error''"

fun join_js :: "jsstring \<Rightarrow> jsstring list \<Rightarrow> jsstring" where
  "join_js sep [] = []"
| "join_js sep [x] = x"
| "join_js sep (x # y # ys) = x @ sep @ join_js sep (y # ys)"

text \<open>
  The Korean literals of the source, as UTF-16 code units: the labels for a reversed and
  an upright card, the four fixed pieces of the prompt template, and the two messages of
  the client.
\<close>

definition reversedLabel :: jsstring where
  "reversedLabel = [32, 40, 50669, 50948, 41]"

definition uprightLabel :: jsstring where
  "uprightLabel = [32, 40, 51221, 50948, 41]"

definition promptIntro :: jsstring where
  "promptIntro =
     [45817, 49888, 51008, 32, 51204, 47928, 32, 53440, 47196, 32, 47532, 45908, 51077,
      45768, 45796, 46, 10, 10, 51452, 51228, 58, 32]"

definition promptSpread :: jsstring where
  "promptSpread = [10, 49828, 54532, 47112, 46300, 58, 32]"

definition promptCards :: jsstring where
  "promptCards = [51109, 10, 52852, 46300, 32, 47785, 47197, 58, 10]"

definition promptRequests :: jsstring where
  "promptRequests =
     [10, 10, 50836, 52397, 32, 49324, 54637, 58, 10, 45, 32, 51, 126, 53, 44060,
      51032, 32, 49548, 51228, 47785, 51004, 47196, 32, 45208, 45600, 32, 49444, 47749,
      10, 45, 32, 54645, 49900, 32, 51312, 50616, 51012, 32, 47560, 51648, 47561,
      50640, 32, 51, 44032, 51648, 32, 98, 117, 108, 108, 101, 116, 47196, 32, 51228,
      49884, 10, 45, 32, 44284, 51109, 46104, 44144, 45208, 32, 45800, 51221, 51201,
      51064, 32, 54364, 54788, 51008, 32, 54588, 54616, 44256, 44, 32, 54788, 49892,
      51201, 51064, 32, 53668, 32, 50976, 51648, 10, 45, 32, 54620, 44397, 50612,
      47196, 32, 45813, 48320]"

definition requestFailed :: jsstring where
  "requestFailed = [65, 73, 32, 50836, 52397, 32, 49892, 54056, 58, 32]"

definition noResponseText :: jsstring where
  "noResponseText =
     [51025, 45813, 32, 53581, 49828, 53944, 47484, 32, 52286, 51012, 32, 49688, 32,
      50630, 49845, 45768, 45796, 46]"

definition cardLines :: "spread_state \<Rightarrow> jsstring" where
  "cardLines st =
     join_js [10]
       (map (\<lambda>(idx, p). numToString (idx + 1) @ str ''. '' @ name (card p)
                @ (if reversed p then reversedLabel else uprightLabel))
          (enumerate 0 (pickedCards st)))"

definition buildPrompt :: "spread_state \<Rightarrow> jsstring" where
  "buildPrompt st =
     promptIntro @ trim (topic st) @ promptSpread @ numToString drawCount @ promptCards
     @ cardLines st @ promptRequests"

text \<open>
  What \<open>fetch\<close> gives the client: it throws, or there is a response with a status, a
  body text (\<open>None\<close> when reading it fails) and the result of parsing the body as JSON,
  read at the type \<open>{text?: string; error?: string}\<close>.
\<close>

record client_data =
  data_text :: "jsstring option"
  data_error :: "jsstring option"

record client_response =
  c_status :: nat
  c_text :: "jsstring option"
  c_json :: "exn + client_data"

definition c_ok :: "client_response \<Rightarrow> bool" where
  "c_ok res \<longleftrightarrow> 200 \<le> c_status res \<and> c_status res \<le> 299"

text \<open>The body of the \<open>try\<close> block after \<open>fetch\<close>: the text to show, or what is thrown.\<close>

definition interpret_try :: "exn + client_response \<Rightarrow> exn + jsstring" where
  "interpret_try outcome =
     (case outcome of
        Inl e \<Rightarrow> Inl e
      | Inr res \<Rightarrow>
          if \<not> c_ok res then
            (let t = (case c_text res of None \<Rightarrow> [] | Some x \<Rightarrow> x)
             in Inl (ErrorObj (requestFailed @ numToString (c_status res) @ str '' '' @ t)))
          else
            (case c_json res of
               Inl e \<Rightarrow> Inl e
             | Inr data \<Rightarrow>
                 (let text = (case data_text data of None \<Rightarrow> [] | Some x \<Rightarrow> x)
                  in if text = [] then
                       Inl (ErrorObj (case data_error data of None \<Rightarrow> noResponseText
                                      | Some x \<Rightarrow> x))
                     else Inr text)))"

text \<open>
  \<open>interpret\<close> of the component (\<open>interpretClient\<close> here) runs in two parts around
  the \<open>await\<close>. \<open>interpret_guard\<close> says that
  neither early return is taken; \<open>interpret_begin\<close> is the part before the request goes
  out and \<open>interpret_end\<close> the part after the outcome arrives (\<open>catch\<close> and \<open>finally\<close>
  included). Writing the reading to the document store afterwards is fire-and-forget and
  touches no state of the component.
\<close>

definition interpret_guard :: "spread_state \<Rightarrow> bool" where
  "interpret_guard st \<longleftrightarrow> \<not> length (trim (topic st)) = 0 \<and> canInterpret st"

definition interpret_begin :: "spread_state \<Rightarrow> spread_state" where
  "interpret_begin st =
     st\<lparr>isResultOpen := False, isInterpreting := True, errorText := None,
        resultText := None\<rparr>"

definition interpret_end :: "spread_state \<Rightarrow> exn + client_response \<Rightarrow> spread_state" where
  "interpret_end st outcome =
     (case interpret_try outcome of
        Inr text \<Rightarrow>
          st\<lparr>resultText := Some (trim text), isResultOpen := True, isInterpreting := False\<rparr>
      | Inl e \<Rightarrow>
          st\<lparr>errorText := Some (errMessage e), isResultOpen := True,
             isInterpreting := False\<rparr>)"

definition interpretClient :: "spread_state \<Rightarrow> exn + client_response \<Rightarrow> spread_state" where
  "interpretClient st outcome =
     (if length (trim (topic st)) = 0 then st
      else if \<not> canInterpret st then st
      else interpret_end (interpret_begin st) outcome)"

text \<open>
  What the result page renders: nothing while it is closed, else the error text when
  there is one, else the result text (cut into sections), else a placeholder.
\<close>

datatype display = Hidden | ShowError jsstring | ShowResult jsstring | ShowPlaceholder

definition resultPage :: "spread_state \<Rightarrow> display" where
  "resultPage st =
     (if \<not> isResultOpen st then Hidden
      else if truthy (errorText st) then ShowError (orEmpty (errorText st))
      else if truthy (resultText st) then ShowResult (orEmpty (resultText st))
      else ShowPlaceholder)"

subsection \<open>The full-reset button of the result page\<close>

text \<open>
  The handler is a sequence of calls \<open>f(args)\<close>. Evaluating a call resolves the
  identifier \<open>f\<close> first, then the identifiers in the arguments; an identifier with no
  binding in scope throws a \<open>ReferenceError\<close>, which ends the handler. State updates
  queued by the calls before it are still applied.
\<close>

datatype js_error = ReferenceError string

text \<open>The bindings in scope at the handler: imports, module functions, the constants
  of the component and the standard globals the module refers to.\<close>

definition importedNames :: "string list" where
  "importedNames =
     [''React'', ''useEffect'', ''useMemo'', ''useRef'', ''useState'', ''ReactMarkdown'',
      ''addDoc'', ''collection'', ''serverTimestamp'', ''auth'', ''db'']"

definition moduleNames :: "string list" where
  "moduleNames =
     [''buildTarotDeck78'', ''xmur3'', ''mulberry32'', ''makeSeededRng'',
      ''randomSeedString'', ''shuffleSeeded'', ''uiBtn'', ''getCardImageUrl'',
      ''splitMarkdownSections'', ''Slot'', ''GridCard'', ''TarotSpreadPick'']"

definition componentNames :: "string list" where
  "componentNames =
     [''topic'', ''setTopic'', ''provider'', ''isInterpreting'', ''setIsInterpreting'',
      ''resultText'', ''setResultText'', ''errorText'', ''setErrorText'', ''isResultOpen'',
      ''setIsResultOpen'', ''isDeckVisible'', ''setIsDeckVisible'', ''isDeckAnimating'',
      ''setIsDeckAnimating'', ''topicInputRef'', ''showInitialCards'',
      ''setShowInitialCards'', ''baseDeck'', ''drawCount'', ''seed'', ''setSeed'', ''rng'',
      ''deck'', ''pickedIds'', ''setPickedIds'', ''pickedSet'', ''isReversed'',
      ''pickedCards'', ''canPickMore'', ''pick'', ''newSeed'', ''canInterpret'',
      ''escapeHtml'', ''handlePrint'', ''interpret'']"

definition globalNames :: "string list" where
  "globalNames =
     [''Array'', ''Boolean'', ''Date'', ''Error'', ''JSON'', ''Map'', ''Math'', ''Number'',
      ''Set'', ''String'', ''Uint32Array'', ''cancelAnimationFrame'', ''crypto'',
      ''document'', ''fetch'', ''requestAnimationFrame'', ''window'']"

definition handlerScope :: "string list" where
  "handlerScope = componentNames @ moduleNames @ importedNames @ globalNames"

text \<open>A call statement: the callee, the identifiers in its arguments and, when the callee
  is a state setter in scope, the update it queues.\<close>

type_synonym call_stmt = "string \<times> string list \<times> (spread_state \<Rightarrow> spread_state)"

fun run_calls :: "string list \<Rightarrow> call_stmt list \<Rightarrow> spread_state \<Rightarrow> js_error option \<times> spread_state" where
  "run_calls scope [] st = (None, st)"
| "run_calls scope ((f, args, upd) # rest) st =
     (if f \<notin> set scope then (Some (ReferenceError f), st)
      else (case find (\<lambda>x. x \<notin> set scope) args of
              Some x \<Rightarrow> (Some (ReferenceError x), st)
            | None \<Rightarrow> run_calls scope rest (upd st)))"

text \<open>The statements of the handler, in source order; \<open>s\<close> is what
  \<open>randomSeedString()\<close> would return.\<close>

definition fullResetHandler :: "jsstring \<Rightarrow> call_stmt list" where
  "fullResetHandler s =
     [(''setIsResultOpen'', [], \<lambda>st. st\<lparr>isResultOpen := False\<rparr>),
      (''setPickedIds'', [], \<lambda>st. st\<lparr>pickedIds := []\<rparr>),
      (''setPickedSet'', [''Set''], \<lambda>st. st),
      (''setPickedCards'', [], \<lambda>st. st),
      (''setResultText'', [], \<lambda>st. st\<lparr>resultText := Some []\<rparr>),
      (''setErrorText'', [], \<lambda>st. st\<lparr>errorText := Some []\<rparr>),
      (''setTopic'', [], \<lambda>st. st\<lparr>topic := []\<rparr>),
      (''setShowInitialCards'', [], \<lambda>st. st\<lparr>showInitialCards := True\<rparr>),
      (''setIsDeckVisible'', [], \<lambda>st. st\<lparr>isDeckVisible := False\<rparr>),
      (''setIsInterpreting'', [], \<lambda>st. st\<lparr>isInterpreting := False\<rparr>),
      (''setCanInterpret'', [], \<lambda>st. st),
      (''setDrawCount'', [], \<lambda>st. st),
      (''setSeed'', [''randomSeedString''], \<lambda>st. st\<lparr>seed := s\<rparr>)]"

definition fullReset :: "spread_state \<Rightarrow> jsstring \<Rightarrow> js_error option \<times> spread_state" where
  "fullReset st s = run_calls handlerScope (fullResetHandler s) st"

subsection \<open>Events and reachable states\<close>

text \<open>
  The events that change the state of the component: typing the topic, tapping a card
  of the grid, the shuffle button, the two parts of \<open>interpret\<close>, closing the result
  page, the full-reset button and the animation flag set by the effect hook. Each event
  is handled on the state of the latest render.
\<close>

datatype event =
    SetTopic jsstring
  | Pick jsstring
  | NewSeed jsstring
  | InterpretBegin
  | InterpretEnd "exn + client_response"
  | CloseResult
  | FullReset jsstring
  | SetDeckAnimating bool

fun step :: "spread_state \<Rightarrow> event \<Rightarrow> spread_state" where
  "step st (SetTopic t) = st\<lparr>topic := t\<rparr>"
| "step st (Pick cardId) = pick st cardId"
| "step st (NewSeed s) = newSeed st s"
| "step st InterpretBegin = (if interpret_guard st then interpret_begin st else st)"
| "step st (InterpretEnd outcome) = interpret_end st outcome"
| "step st CloseResult = st\<lparr>isResultOpen := False\<rparr>"
| "step st (FullReset s) = snd (fullReset st s)"
| "step st (SetDeckAnimating b) = st\<lparr>isDeckAnimating := b\<rparr>"

text \<open>The state in which the component is mounted; \<open>s\<close> is the first random seed.\<close>

definition initial :: "jsstring \<Rightarrow> spread_state" where
  "initial s =
     \<lparr>topic = [], isInterpreting = False, resultText = None, errorText = None,
      isResultOpen = False, isDeckVisible = False, isDeckAnimating = False,
      showInitialCards = True, seed = s, pickedIds = []\<rparr>"

inductive reachable :: "spread_state \<Rightarrow> bool" where
  mounted: "reachable (initial s)"
| after: "reachable st \<Longrightarrow> reachable (step st e)"

text \<open>An example run: a topic is typed, the deck is shuffled and five cards are tapped.\<close>

definition exampleRun :: spread_state where
  "exampleRun =
     foldl step (initial (str ''abc''))
       [SetTopic (str ''love''), NewSeed (str ''s1''), Pick (str ''M-0''), Pick (str ''M-1''),
        Pick (str ''M-2''), Pick (str ''M-3''), Pick (str ''M-4'')]"

section \<open>The cloud functions\<close>

text \<open>
  A response of an HTTP function: the status and the JSON body, which is
  \<open>{text: ...}\<close>, \<open>{error: ...}\<close>, \<open>{admin: ...}\<close> or empty.
\<close>

datatype payload = TextPayload jsstring | ErrorPayload jsstring | AdminPayload bool | NoBody

record http_response =
  status :: nat
  payload :: payload

text \<open>A property of a JSON body: missing, holding a value that is not a string, or
  holding a string.\<close>

datatype jsfield = Absent | NotString | Str jsstring

record request_body =
  prompt :: jsfield
  provider_field :: jsfield

record request =
  req_method :: jsstring
  req_authorization :: "jsstring option"
  req_body :: "request_body option"

text \<open>\<open>s.split(",")\<close>: the pieces between the separators; never an empty list.\<close>

fun split_js :: "16 word \<Rightarrow> jsstring \<Rightarrow> jsstring list" where
  "split_js sep [] = [[]]"
| "split_js sep (c # cs) =
     (if c = sep then [] # split_js sep cs
      else (case split_js sep cs of
              w # ws \<Rightarrow> (c # w) # ws
            | [] \<Rightarrow> [[c]]))"

definition comma :: "16 word" where
  "comma = 44"

text \<open>\<open>s.includes(t)\<close>.\<close>

fun includes_js :: "jsstring \<Rightarrow> jsstring \<Rightarrow> bool" where
  "includes_js [] t = (t = [])"
| "includes_js (c # cs) t = (take (length t) (c # cs) = t \<or> includes_js cs t)"

subsection \<open>Admin claims (\<open>getAdminEmailList\<close>, \<open>isAdminEmail\<close>, \<open>syncAdminClaims\<close>)\<close>

text \<open>
  \<open>String.prototype.toLowerCase\<close> is a built-in of the host language that follows the
  Unicode case mapping; the functions below take it as the parameter \<open>toLowerCase\<close>.
  \<open>asciiLower\<close> is its restriction to strings of ASCII characters. \<open>adminEmails\<close> is the
  value of the parameter \<open>ADMIN_EMAILS\<close>.
\<close>

definition asciiLower :: "jsstring \<Rightarrow> jsstring" where
  "asciiLower s = map (\<lambda>c. if 65 \<le> c \<and> c \<le> 90 then c + 32 else c) s"

definition getAdminEmailList ::
  "(jsstring \<Rightarrow> jsstring) \<Rightarrow> jsstring option \<Rightarrow> jsstring list" where
  "getAdminEmailList toLowerCase adminEmails =
     filter (\<lambda>e. e \<noteq> [])
       (map (\<lambda>email. toLowerCase (trim email)) (split_js comma (orEmpty adminEmails)))"

definition isAdminEmail ::
  "(jsstring \<Rightarrow> jsstring) \<Rightarrow> jsstring option \<Rightarrow> jsstring \<Rightarrow> bool" where
  "isAdminEmail toLowerCase adminEmails email =
     (if email = [] then False
      else toLowerCase email \<in> set (getAdminEmailList toLowerCase adminEmails))"

text \<open>
  The authentication service: \<open>verifyIdToken\<close> rejects or gives the decoded token;
  \<open>setCustomUserClaims\<close> rejects (\<open>set_claims_error\<close>) or replaces the custom claims of the
  user; the claims are the state, a map from user id to the \<open>admin\<close> flag.
\<close>

record decoded_token =
  uid :: jsstring
  email :: "jsstring option"

record auth_service =
  verifyIdToken :: "jsstring \<Rightarrow> exn + decoded_token"
  set_claims_error :: "jsstring \<Rightarrow> exn option"

type_synonym claims = "jsstring \<rightharpoonup> bool"

definition bearer :: jsstring where
  "bearer = str ''Bearer ''"

definition syncAdminClaims ::
  "(jsstring \<Rightarrow> jsstring) \<Rightarrow> jsstring option \<Rightarrow> auth_service \<Rightarrow> claims \<Rightarrow> request
     \<Rightarrow> http_response \<times> claims" where
  "syncAdminClaims toLowerCase adminEmails svc cl req =
     (if req_method req = str ''OPTIONS'' then (\<lparr>status = 204, payload = NoBody\<rparr>, cl)
      else if req_method req \<noteq> str ''POST'' then
        (\<lparr>status = 405, payload = ErrorPayload (str ''Method Not Allowed'')\<rparr>, cl)
      else
        (let authHeader = orEmpty (req_authorization req);
             token = (if take (length bearer) authHeader = bearer then drop 7 authHeader
                      else [])
         in if token = [] then
              (\<lparr>status = 401, payload = ErrorPayload (str ''Missing auth token'')\<rparr>, cl)
            else
              (case verifyIdToken svc token of
                 Inl err \<Rightarrow> (\<lparr>status = 401, payload = ErrorPayload (errMessage err)\<rparr>, cl)
               | Inr decoded \<Rightarrow>
                   (let em = orEmpty (email decoded);
                        shouldBeAdmin = isAdminEmail toLowerCase adminEmails em
                    in case set_claims_error svc (uid decoded) of
                         Some err \<Rightarrow>
                           (\<lparr>status = 401, payload = ErrorPayload (errMessage err)\<rparr>, cl)
                       | None \<Rightarrow>
                           (\<lparr>status = 200, payload = AdminPayload shouldBeAdmin\<rparr>,
                            cl(uid decoded \<mapsto> shouldBeAdmin))))))"

subsection \<open>The interpretation endpoint (\<open>interpret\<close> of the cloud functions)\<close>

record env_vars =
  GOOGLE_CLOUD_PROJECT :: "jsstring option"
  GCLOUD_PROJECT :: "jsstring option"
  GCP_PROJECT :: "jsstring option"
  VERTEX_AI_LOCATION :: "jsstring option"
  VERTEX_AI_MODEL :: "jsstring option"
  OPENAI_API_KEY :: "jsstring option"
  OPENAI_MODEL :: "jsstring option"

text \<open>
  The body of an OpenAI response, at the shape the code reads: \<open>output_text\<close>, and
  \<open>output\<close> (the field \<open>output_items\<close>) as an array of items with a \<open>content\<close> array of parts with \<open>type\<close> and
  \<open>text\<close>. \<open>None\<close> stands for a value that is \<open>null\<close> or \<open>undefined\<close> (for \<open>output\<close>: not
  an array). Text fields hold strings.
\<close>

record openai_part =
  part_type :: "jsstring option"
  part_text :: "jsstring option"

record openai_item =
  content :: "openai_part option list option"

record openai_data =
  output_text :: "jsstring option"
  output_items :: "openai_item option list option"

record openai_response =
  resp_ok :: bool
  resp_status :: nat
  resp_text :: "jsstring option"
  resp_json :: "exn + openai_data option"

text \<open>
  A Vertex AI result: the candidates, each with the texts of its parts; \<open>None\<close> wherever
  the chain \<open>result?.response?.candidates\<close>, \<open>c?.content?.parts\<close> or \<open>p?.text\<close> meets
  \<open>null\<close> or \<open>undefined\<close>.
\<close>

type_synonym vertex_result = "jsstring option list option list option"

text \<open>
  The services behind the endpoint: the OpenAI request (API key, model, prompt), the
  constructor of the Vertex AI client (project, location), which may throw, and the
  generation call for one model (project, location, model, prompt), which stands for
  \<open>getGenerativeModel\<close> followed by \<open>generateContent\<close>.
\<close>

record backend =
  openai_fetch :: "jsstring \<Rightarrow> jsstring \<Rightarrow> jsstring \<Rightarrow> exn + openai_response"
  vertex_new :: "jsstring \<Rightarrow> jsstring \<Rightarrow> exn option"
  vertex_generate :: "jsstring \<Rightarrow> jsstring \<Rightarrow> jsstring \<Rightarrow> jsstring \<Rightarrow> exn + vertex_result"

definition errorResponse :: "nat \<Rightarrow> jsstring \<Rightarrow> http_response" where
  "errorResponse code msg = \<lparr>status = code, payload = ErrorPayload msg\<rparr>"

definition textResponse :: "jsstring \<Rightarrow> http_response" where
  "textResponse t = \<lparr>status = 200, payload = TextPayload t\<rparr>"

definition openaiOutputText :: "openai_data option \<Rightarrow> jsstring" where
  "openaiOutputText data =
     (case (case data of None \<Rightarrow> None | Some d \<Rightarrow> output_text d) of
        Some t \<Rightarrow> t
      | None \<Rightarrow>
          (case (case data of None \<Rightarrow> None | Some d \<Rightarrow> output_items d) of
             Some items \<Rightarrow>
               join_js [10]
                 (map (\<lambda>c. case c of None \<Rightarrow> []
                           | Some part \<Rightarrow> (case part_text part of None \<Rightarrow> [] | Some t \<Rightarrow> t))
                    (filter (\<lambda>c. (case c of None \<Rightarrow> None | Some part \<Rightarrow> part_type part)
                                  = Some (str ''output_text''))
                       (concat (map (\<lambda>it. case (case it of None \<Rightarrow> None
                                                | Some item \<Rightarrow> content item) of
                                            None \<Rightarrow> [] | Some parts \<Rightarrow> parts)
                                  items))))
           | None \<Rightarrow> []))"

definition interpretOpenAI :: "env_vars \<Rightarrow> backend \<Rightarrow> jsstring \<Rightarrow> exn + http_response" where
  "interpretOpenAI env be p =
     (let apiKey = OPENAI_API_KEY env
      in if \<not> truthy apiKey then Inr (errorResponse 500 (str ''OPENAI_API_KEY is not set''))
         else
           (case openai_fetch be (orEmpty apiKey)
                   (orEmpty (js_or (OPENAI_MODEL env) (Some (str ''gpt-4o-mini'')))) p of
              Inl err \<Rightarrow> Inl err
            | Inr response \<Rightarrow>
                if \<not> resp_ok response then
                  (let t = (case resp_text response of None \<Rightarrow> [] | Some x \<Rightarrow> x)
                   in Inr (errorResponse 500
                        (str ''OpenAI request failed: '' @ numToString (resp_status response)
                         @ str '' '' @ t)))
                else
                  (case resp_json response of
                     Inl err \<Rightarrow> Inl err
                   | Inr data \<Rightarrow>
                       (let outputText = openaiOutputText data
                        in if outputText = [] then
                             Inr (errorResponse 500 (str ''No output_text in response''))
                           else Inr (textResponse outputText)))))"

definition vertexOutputText :: "vertex_result \<Rightarrow> jsstring" where
  "vertexOutputText result =
     (let candidates = (case result of None \<Rightarrow> [] | Some cs \<Rightarrow> cs)
      in trim (concat
           (map (\<lambda>p. case p of None \<Rightarrow> [] | Some t \<Rightarrow> t)
              (concat (map (\<lambda>c. case c of None \<Rightarrow> [] | Some ps \<Rightarrow> ps) candidates)))))"

text \<open>
  The loop over the model candidates, with \<open>lastError\<close>. It ends with the first
  non-empty text (\<open>break\<close>), with an error other than a 404 (thrown on), or at the end
  of the list with the empty text.
\<close>

fun vertex_loop ::
  "(jsstring \<Rightarrow> exn + vertex_result) \<Rightarrow> jsstring list \<Rightarrow> exn option
     \<Rightarrow> exn + (jsstring \<times> exn option)" where
  "vertex_loop gen [] lastError = Inr ([], lastError)"
| "vertex_loop gen (modelName # rest) lastError =
     (case gen modelName of
        Inr result \<Rightarrow>
          (let outputText = vertexOutputText result
           in if outputText \<noteq> [] then Inr (outputText, lastError)
              else vertex_loop gen rest lastError)
      | Inl err \<Rightarrow>
          (let message = (case err of ErrorObj m \<Rightarrow> m | NonError v \<Rightarrow> v)
           in if \<not> includes_js message (str ''404'')
                 \<and> \<not> includes_js message (str ''NOT_FOUND'')
              then Inl err
              else vertex_loop gen rest (Some err)))"

definition modelCandidates :: "env_vars \<Rightarrow> jsstring list" where
  "modelCandidates env =
     filter (\<lambda>m. m \<noteq> []) (map trim (split_js comma (orEmpty (VERTEX_AI_MODEL env))))
     @ [str ''gemini-1.5-flash-002'', str ''gemini-1.5-flash-001'', str ''gemini-2.0-flash'']"

definition interpretVertex ::
  "env_vars \<Rightarrow> backend \<Rightarrow> jsstring \<Rightarrow> jsstring \<Rightarrow> jsstring \<Rightarrow> exn + http_response" where
  "interpretVertex env be project location p =
     (case vertex_new be project location of
        Some err \<Rightarrow> Inl err
      | None \<Rightarrow>
          (case vertex_loop (\<lambda>modelName. vertex_generate be project location modelName p)
                  (modelCandidates env) None of
             Inl err \<Rightarrow> Inl err
           | Inr (outputText, lastError) \<Rightarrow>
               if outputText = [] then
                 (let message = (case lastError of
                                   Some (ErrorObj m) \<Rightarrow> m
                                 | _ \<Rightarrow> str ''No output_text in response'')
                  in Inr (errorResponse 500 message))
               else Inr (textResponse outputText)))"

text \<open>\<open>project\<close> and \<open>location\<close> as the endpoint reads them, and \<open>req.body ?? {}\<close>.\<close>

definition gcpProject :: "env_vars \<Rightarrow> jsstring option" where
  "gcpProject env = js_or (js_or (GOOGLE_CLOUD_PROJECT env) (GCLOUD_PROJECT env)) (GCP_PROJECT env)"

definition vertexLocation :: "env_vars \<Rightarrow> jsstring option" where
  "vertexLocation env = js_or (VERTEX_AI_LOCATION env) (Some (str ''us-central1''))"

definition bodyOf :: "request \<Rightarrow> request_body" where
  "bodyOf req =
     (case req_body req of
        None \<Rightarrow> \<lparr>prompt = Absent, provider_field = Absent\<rparr>
      | Some b \<Rightarrow> b)"

definition interpretEndpoint :: "env_vars \<Rightarrow> backend \<Rightarrow> request \<Rightarrow> http_response" where
  "interpretEndpoint env be req =
     (if req_method req \<noteq> str ''POST'' then errorResponse 405 (str ''Method Not Allowed'')
      else
        (let project = gcpProject env;
             location = vertexLocation env
         in if \<not> truthy project then errorResponse 500 (str ''GCP project is not set'')
            else
              (let tried =
                     (case prompt (bodyOf req) of
                        Str p \<Rightarrow>
                          if p = [] then Inr (errorResponse 400 (str ''Invalid prompt''))
                          else if provider_field (bodyOf req) = Str (str ''openai'')
                          then interpretOpenAI env be p
                          else interpretVertex env be (orEmpty project) (orEmpty location) p
                      | _ \<Rightarrow> Inr (errorResponse 400 (str ''Invalid prompt'')))
               in case tried of
                    Inl err \<Rightarrow> errorResponse 500 (errMessage err)
                  | Inr res \<Rightarrow> res)))"

subsection \<open>Client and endpoint together\<close>

text \<open>
  The request that the component sends, and the response as the component receives it:
  \<open>serialize\<close> is the JSON text of the body, produced by the HTTP framework, and parsing
  it gives the object back.
\<close>

definition interpretRequest :: "spread_state \<Rightarrow> request" where
  "interpretRequest st =
     \<lparr>req_method = str ''POST'', req_authorization = None,
      req_body = Some \<lparr>prompt = Str (buildPrompt st), provider_field = Str provider\<rparr>\<rparr>"

definition received :: "(payload \<Rightarrow> jsstring) \<Rightarrow> http_response \<Rightarrow> client_response" where
  "received serialize res =
     \<lparr>c_status = status res, c_text = Some (serialize (payload res)),
      c_json = Inr (case payload res of
                      TextPayload t \<Rightarrow> \<lparr>data_text = Some t, data_error = None\<rparr>
                    | ErrorPayload e \<Rightarrow> \<lparr>data_text = None, data_error = Some e\<rparr>
                    | _ \<Rightarrow> \<lparr>data_text = None, data_error = None\<rparr>)\<rparr>"

subsection \<open>Example deployments\<close>

text \<open>
  An environment with no variable set and one with only the project set; a backend whose
  every call fails with the given error, and a mocked Vertex AI backend that answers every
  model with one candidate holding one part with the given text.
\<close>

definition noEnv :: env_vars where
  "noEnv =
     \<lparr>GOOGLE_CLOUD_PROJECT = None, GCLOUD_PROJECT = None, GCP_PROJECT = None,
      VERTEX_AI_LOCATION = None, VERTEX_AI_MODEL = None, OPENAI_API_KEY = None,
      OPENAI_MODEL = None\<rparr>"

definition projectEnv :: env_vars where
  "projectEnv = noEnv\<lparr>GOOGLE_CLOUD_PROJECT := Some (str ''demo'')\<rparr>"

definition failingBackend :: "exn \<Rightarrow> backend" where
  "failingBackend err =
     \<lparr>openai_fetch = (\<lambda>apiKey model p. Inl err),
      vertex_new = (\<lambda>project location. None),
      vertex_generate = (\<lambda>project location model p. Inl err)\<rparr>"

definition mockBackend :: "jsstring \<Rightarrow> backend" where
  "mockBackend t =
     \<lparr>openai_fetch = (\<lambda>apiKey model p. Inl (ErrorObj (str ''unused''))),
      vertex_new = (\<lambda>project location. None),
      vertex_generate = (\<lambda>project location model p. Inr (Some [Some [Some t]]))\<rparr>"

text \<open>An authentication service that accepts every token as the given user.\<close>

definition acceptingAuth :: "decoded_token \<Rightarrow> auth_service" where
  "acceptingAuth d = \<lparr>verifyIdToken = (\<lambda>token. Inr d), set_claims_error = (\<lambda>u. None)\<rparr>"

section \<open>Auxiliary notions for the proofs\<close>

text \<open>A generator all of whose outputs are finite numbers in \<open>[0, 1)\<close>.\<close>

definition unit_rng :: "('s \<Rightarrow> jsnum \<times> 's) \<Rightarrow> bool" where
  "unit_rng rng \<longleftrightarrow> (\<forall>s. \<exists>r. fst (rng s) = Num r \<and> 0 \<le> r \<and> r < 1)"

section \<open>The store and the shuffle loop\<close>

lemma length_heap_set: "length (heap_set h q k v) = length h"
  by (simp add: heap_set_def)

lemma heap_set_other: "p \<noteq> q \<Longrightarrow> heap_set h q k v ! p = h ! p"
  by (simp add: heap_set_def)

lemma heap_set_same: "q < length h \<Longrightarrow> heap_set h q k v ! q = array_set (h ! q) k v"
  by (simp add: heap_set_def)

lemma shuffle_loop_frame:
  "length (fst (shuffle_loop rng q k (h, s))) = length h
   \<and> (\<forall>p. p \<noteq> q \<longrightarrow> fst (shuffle_loop rng q k (h, s)) ! p = h ! p)"
proof (induction k arbitrary: h s)
  case 0
  show ?case by simp
next
  case (Suc k)
  show ?case
    by (simp add: Let_def split_beta Suc.IH length_heap_set heap_set_other)
qed

lemma shuffleSeeded_frame_aux:
  assumes "shuffleSeeded h p rng s = (q, h', s')"
  shows "q = length h \<and> length h' = Suc (length h) \<and> take (length h) h' = h"
proof -
  let ?a = "\<lparr>elems = elems (h ! p), props = (\<lambda>k. None)\<rparr>"
  let ?n = "length (elems ?a) - 1"
  have q: "q = length h" and h': "h' = fst (shuffle_loop rng (length h) ?n (h @ [?a], s))"
    using assms by (auto simp: shuffleSeeded_def Let_def split: prod.splits)
  have len: "length h' = Suc (length h)"
    using shuffle_loop_frame [of rng "length h" ?n "h @ [?a]" s] h' by simp
  have "take (length h) h' = h"
  proof (rule nth_equalityI)
    show "length (take (length h) h') = length h" using len by simp
  next
    fix i assume "i < length (take (length h) h')"
    then have i: "i < length h" by simp
    then have "h' ! i = (h @ [?a]) ! i"
      using shuffle_loop_frame [of rng "length h" ?n "h @ [?a]" s] h' by simp
    then show "take (length h) h' ! i = h ! i" using i by (simp add: nth_append)
  qed
  with q len show ?thesis by simp
qed

lemma mulberry32_unit: "unit_rng mulberry32"
proof -
  have "\<exists>r. fst (mulberry32 s) = Num r \<and> 0 \<le> r \<and> r < 1" for s
  proof -
    obtain w :: i32 where w: "fst (mulberry32 s) = Num (of_int (uint w) / 4294967296)"
      by (simp add: mulberry32_def Let_def)
    have "uint w < 4294967296" using uint_bounded [of w] by simp
    then have "(of_int (uint w) :: rat) < 4294967296"
      by (metis of_int_less_iff of_int_numeral)
    then have "(of_int (uint w) :: rat) / 4294967296 < 1" by simp
    moreover have "0 \<le> (of_int (uint w) :: rat) / 4294967296"
      by (intro divide_nonneg_nonneg) (simp_all only: of_int_0_le_iff uint_ge_0 zero_le_numeral)
    ultimately show ?thesis using w by blast
  qed
  then show ?thesis by (simp add: unit_rng_def)
qed

lemma scaleFloor_in_range:
  assumes "0 \<le> r" "r < 1" "0 < n"
  shows "\<exists>j. scaleFloor (Num r) n = Num (of_nat j) \<and> j < n"
proof -
  have lo: "0 \<le> \<lfloor>r * of_nat n\<rfloor>" using assms by simp
  have "r * of_nat n < of_nat n" using assms by simp
  then have hi: "\<lfloor>r * of_nat n\<rfloor> < int n" by (simp add: floor_less_iff)
  define j where "j = nat \<lfloor>r * of_nat n\<rfloor>"
  have "of_int \<lfloor>r * of_nat n\<rfloor> = (of_nat j :: rat)" using lo by (simp add: j_def)
  moreover have "j < n" using lo hi unfolding j_def by linarith
  ultimately show ?thesis by auto
qed

lemma arrayIndex_of_nat: "n < 4294967295 \<Longrightarrow> arrayIndex (Num (of_nat n)) = Some n"
proof -
  assume "n < 4294967295"
  then have "(of_nat n :: rat) < of_nat 4294967295" by (simp only: of_nat_less_iff)
  then show ?thesis by simp
qed

lemma array_get_in: "n < length (elems a) \<Longrightarrow> n < 4294967295 \<Longrightarrow> array_get a (Num (of_nat n)) = elems a ! n"
  by (simp add: array_get_def arrayIndex_of_nat)

lemma array_set_in: "n < length (elems a) \<Longrightarrow> n < 4294967295 \<Longrightarrow> array_set a (Num (of_nat n)) v = a\<lparr>elems := (elems a)[n := v]\<rparr>"
  by (simp add: array_set_def arrayIndex_of_nat)

lemma swap_step:
  assumes q: "q < length h" and el: "elems (h ! q) = map Some xs"
    and i: "i < length xs" and j: "j < length xs" and len: "length xs < 4294967295"
  shows "heap_set (heap_set h q (Num (of_nat i)) (heap_get h q (Num (of_nat j)))) q (Num (of_nat j)) (heap_get h q (Num (of_nat i)))
         = h[q := (h ! q)\<lparr>elems := map Some (xs[i := xs ! j, j := xs ! i])\<rparr>]"
  using assms
  by (simp add: heap_set_def heap_get_def array_get_in array_set_in map_update)

lemma shuffle_loop_perm:
  assumes "unit_rng rng" "q < length h" "elems (h ! q) = map Some xs"
    "k < length xs \<or> k = 0" "length xs < 4294967295"
  shows "\<exists>ys. elems (fst (shuffle_loop rng q k (h, s)) ! q) = map Some ys \<and> mset ys = mset xs"
  using assms
proof (induction k arbitrary: h s xs)
  case 0
  then show ?case by auto
next
  case (Suc k)
  obtain r where r: "fst (rng s) = Num r" "0 \<le> r" "r < 1"
    using Suc.prems(1) unfolding unit_rng_def by blast
  obtain j where j: "scaleFloor (Num r) (Suc k + 1) = Num (of_nat j)" "j < Suc k + 1"
    using scaleFloor_in_range [OF r(2,3), of "Suc k + 1"] by auto
  have i: "Suc k < length xs" using Suc.prems(4) by simp
  then have j': "j < length xs" using j(2) by simp
  let ?xs = "xs[Suc k := xs ! j, j := xs ! Suc k]"
  let ?h = "h[q := (h ! q)\<lparr>elems := map Some ?xs\<rparr>]"
  have step: "shuffle_loop rng q (Suc k) (h, s) = shuffle_loop rng q k (?h, snd (rng s))"
    using swap_step [OF Suc.prems(2,3) i j' Suc.prems(5)] r(1) j(1)
    by (simp add: Let_def split_beta)
  have "\<exists>ys. elems (fst (shuffle_loop rng q k (?h, snd (rng s))) ! q) = map Some ys \<and> mset ys = mset ?xs"
    using Suc.prems i by (intro Suc.IH) auto
  moreover have "mset ?xs = mset xs" using i j' by (simp add: mset_swap)
  ultimately show ?case using step by auto
qed

lemma shuffle_loop_cong:
  assumes "q1 < length h1" "q2 < length h2" "h1 ! q1 = h2 ! q2"
  shows "fst (shuffle_loop rng q1 k (h1, s)) ! q1 = fst (shuffle_loop rng q2 k (h2, s)) ! q2
       \<and> snd (shuffle_loop rng q1 k (h1, s)) = snd (shuffle_loop rng q2 k (h2, s))"
  using assms
proof (induction k arbitrary: h1 h2 s)
  case 0
  then show ?case by simp
next
  case (Suc k)
  show ?case
    using Suc.prems
    by (simp add: Let_def split_beta heap_get_def)
       (intro Suc.IH; simp add: heap_set_def heap_get_def)
qed


section \<open>Properties of the deck\<close>

lemma distinct_map_imp: "distinct (map f xs) \<Longrightarrow> distinct xs"
  by (simp add: distinct_map)

lemma distinct_card_ids_key:
  "distinct (map stringKey (map card_id buildTarotDeck78))"
  by (simp add: numToString.simps stringKey_def buildTarotDeck78_def majors_def majorNames_def minors_def
        minorRanks_def suits_def str_def)

lemma distinct_card_ids: "distinct (map card_id buildTarotDeck78)"
  using distinct_card_ids_key by (rule distinct_map_imp)

lemma distinct_buildTarotDeck78: "distinct buildTarotDeck78"
  using distinct_card_ids by (rule distinct_map_imp)

lemma length_buildTarotDeck78: "length buildTarotDeck78 = 78"
  by (simp add: numToString.simps buildTarotDeck78_def majors_def majorNames_def minors_def minorRanks_def suits_def)

lemma shuffleSeeded_perm:
  assumes "unit_rng rng" "elems (h ! p) = map Some xs" "length xs < 4294967295"
  shows "case shuffleSeeded h p rng s of (q, h', s') \<Rightarrow>
           \<exists>ys. elems (h' ! q) = map Some ys \<and> mset ys = mset xs"
proof -
  let ?a = "\<lparr>elems = elems (h ! p), props = (\<lambda>k. None)\<rparr>"
  have "\<exists>ys. elems (fst (shuffle_loop rng (length h) (length xs - 1) (h @ [?a], s)) ! length h)
          = map Some ys \<and> mset ys = mset xs"
    using assms by (intro shuffle_loop_perm) (auto simp: nth_append)
  then show ?thesis
    using assms(2) by (simp add: shuffleSeeded_def Let_def split_beta)
qed


lemma count_major: "length (filter (\<lambda>c. arcana c = Major) buildTarotDeck78) = 22"
  by (simp add: numToString.simps buildTarotDeck78_def majors_def majorNames_def minors_def minorRanks_def suits_def)

lemma count_minor: "length (filter (\<lambda>c. arcana c = Minor) buildTarotDeck78) = 56"
  by (simp add: numToString.simps buildTarotDeck78_def majors_def majorNames_def minors_def minorRanks_def suits_def)

lemma replicate4: "replicate 4 x = [x, x, x, x]"
  by (simp add: numeral_eq_Suc)

lemma ranks_per_suit:
  "map (\<lambda>s. map rank (filter (\<lambda>c. suit c = Some s) buildTarotDeck78))
        [Wands, Cups, Swords, Pentacles]
   = replicate 4 (map Some minorRanks)"
  by (simp add: numToString.simps replicate4 buildTarotDeck78_def majors_def majorNames_def minors_def
        minorRanks_def suits_def)

lemma minorRanks_shape: "length minorRanks = 14 \<and> distinct minorRanks"
  by (simp add: minorRanks_def str_def)

text \<open>
  Claim C9. \<open>buildTarotDeck78\<close> returns exactly 78 cards whose ids are pairwise
  distinct: 22 Major Arcana cards and 56 Minor Arcana cards, and every one of the four
  suits carries exactly the 14 ranks.
\<close>

theorem buildTarotDeck78_shape:
  "length buildTarotDeck78 = 78
   \<and> distinct (map card_id buildTarotDeck78)
   \<and> length (filter (\<lambda>c. arcana c = Major) buildTarotDeck78) = 22
   \<and> length (filter (\<lambda>c. arcana c = Minor) buildTarotDeck78) = 56
   \<and> map (\<lambda>s. map rank (filter (\<lambda>c. suit c = Some s) buildTarotDeck78))
        [Wands, Cups, Swords, Pentacles]
      = replicate 4 (map Some minorRanks)
   \<and> length minorRanks = 14 \<and> distinct minorRanks"
  using length_buildTarotDeck78 distinct_card_ids count_major count_minor ranks_per_suit
    minorRanks_shape
  by (intro conjI) (erule conjunct1 conjunct2 | assumption)+

section \<open>The seeded shuffle\<close>

text \<open>
  Claim C1. For every seed string, shuffling the base deck (held by any array of the
  store) with the generator made from the seed yields an array whose entries are all
  defined cards and form a permutation of the base deck: the same 78 cards, none twice,
  none missing.
\<close>

theorem shuffleSeeded_deck_permutation:
  assumes "p < length h" and "elems (h ! p) = map Some buildTarotDeck78"
  shows "case shuffleSeeded h p mulberry32 (makeSeededRng seedStr) of (q, h', s') \<Rightarrow>
           \<exists>ys. elems (h' ! q) = map Some ys \<and> mset ys = mset buildTarotDeck78
                \<and> set ys = set buildTarotDeck78 \<and> distinct ys \<and> length ys = 78"
proof -
  obtain q h' s' where res: "shuffleSeeded h p mulberry32 (makeSeededRng seedStr) = (q, h', s')"
    by (cases "shuffleSeeded h p mulberry32 (makeSeededRng seedStr)") auto
  have "length buildTarotDeck78 < 4294967295" by (simp add: length_buildTarotDeck78)
  from shuffleSeeded_perm [OF mulberry32_unit assms(2) this, of "makeSeededRng seedStr"] res
  obtain ys where ys: "elems (h' ! q) = map Some ys" "mset ys = mset buildTarotDeck78"
    by auto
  have "set ys = set buildTarotDeck78" using ys(2) by (rule mset_eq_setD)
  moreover have "distinct ys"
    using mset_eq_imp_distinct_iff [OF ys(2)] distinct_buildTarotDeck78 by blast
  moreover have "length ys = 78"
    using mset_eq_length [OF ys(2)] length_buildTarotDeck78 by (simp only:)
  ultimately have "\<exists>ys. elems (h' ! q) = map Some ys \<and> mset ys = mset buildTarotDeck78
      \<and> set ys = set buildTarotDeck78 \<and> distinct ys \<and> length ys = 78"
    using ys by blast
  then show ?thesis by (simp only: res prod.case)
qed



theorem shuffleSeeded_deck_permutation_witness:
  "0 < length [baseDeck] \<and> elems ([baseDeck] ! 0) = map Some buildTarotDeck78
   \<and> (case shuffleSeeded [baseDeck] 0 mulberry32 (makeSeededRng (str ''abc'')) of (q, h', s') \<Rightarrow>
        \<exists>ys. elems (h' ! q) = map Some ys \<and> mset ys = mset buildTarotDeck78
             \<and> set ys = set buildTarotDeck78 \<and> distinct ys \<and> length ys = 78)"
  using shuffleSeeded_deck_permutation [of 0 "[baseDeck]" "str ''abc''"]
  by (simp add: baseDeck_def)



lemma deck_elems: "elems (deckArray seedStr) = map Some (map the (elems (deckArray seedStr)))
  \<and> mset (map the (elems (deckArray seedStr))) = mset buildTarotDeck78"
proof -
  have "length buildTarotDeck78 < 4294967295" by (simp add: length_buildTarotDeck78)
  from shuffleSeeded_perm [OF mulberry32_unit _ this, of "[baseDeck]" 0 "makeSeededRng seedStr"]
  obtain ys where "elems (deckArray seedStr) = map Some ys" "mset ys = mset buildTarotDeck78"
    by (auto simp: deckArray_def baseDeck_def Let_def split: prod.splits)
  then show ?thesis by (simp add: comp_def)
qed



lemma shuffleSeeded_cong:
  assumes "elems (h1 ! p1) = elems (h2 ! p2)"
  shows "case shuffleSeeded h1 p1 rng s of (q1, h1', s1) \<Rightarrow>
         case shuffleSeeded h2 p2 rng s of (q2, h2', s2) \<Rightarrow> h1' ! q1 = h2' ! q2 \<and> s1 = s2"
proof -
  let ?a = "\<lparr>elems = elems (h1 ! p1), props = (\<lambda>k. None)\<rparr>"
  let ?n = "length (elems (h1 ! p1)) - 1"
  have "fst (shuffle_loop rng (length h1) ?n (h1 @ [?a], s)) ! length h1
        = fst (shuffle_loop rng (length h2) ?n (h2 @ [?a], s)) ! length h2
      \<and> snd (shuffle_loop rng (length h1) ?n (h1 @ [?a], s))
        = snd (shuffle_loop rng (length h2) ?n (h2 @ [?a], s))"
    by (rule shuffle_loop_cong) simp_all
  then show ?thesis
    using assms by (simp add: shuffleSeeded_def Let_def split_beta)
qed
text \<open>
  Claim C2. Two runs with the same seed give the same results, whatever else differs
  between them (the store, the address of the base deck, the other state cells of the
  component): the shuffled arrays are equal, so the card order is the same, and each
  card id gets the same reversed flag.
\<close>

theorem seeded_pipeline_deterministic:
  assumes "p1 < length h1" and "p2 < length h2"
    and "elems (h1 ! p1) = map Some buildTarotDeck78"
    and "elems (h2 ! p2) = map Some buildTarotDeck78"
    and "seed st1 = seed st2"
  shows "(case shuffleSeeded h1 p1 mulberry32 (makeSeededRng (seed st1)) of (q1, h1', s1) \<Rightarrow>
          case shuffleSeeded h2 p2 mulberry32 (makeSeededRng (seed st2)) of (q2, h2', s2) \<Rightarrow>
            h1' ! q1 = h2' ! q2)
       \<and> deck st1 = deck st2
       \<and> isReversed st1 cardId = isReversed st2 cardId"
proof -
  have "elems (h1 ! p1) = elems (h2 ! p2)" using assms(3,4) by simp
  from shuffleSeeded_cong [OF this, of mulberry32 "makeSeededRng (seed st1)"]
  show ?thesis using assms(5) by (auto simp: deck_def isReversed_def split: prod.splits)
qed



theorem seeded_pipeline_deterministic_witness:
  "(0::nat) < length [baseDeck] \<and> (1::nat) < length [\<lparr>elems = [], props = (\<lambda>k. None)\<rparr>, baseDeck]
   \<and> elems ([baseDeck] ! 0) = map Some buildTarotDeck78
   \<and> elems ([\<lparr>elems = [], props = (\<lambda>k. None)\<rparr>, baseDeck] ! 1) = map Some buildTarotDeck78
   \<and> seed (initial (str ''abc'')) = seed ((initial (str ''abc''))\<lparr>topic := str ''x''\<rparr>)
   \<and> (case shuffleSeeded [baseDeck] 0 mulberry32 (makeSeededRng (seed (initial (str ''abc'')))) of
        (q1, h1', s1) \<Rightarrow>
        case shuffleSeeded [\<lparr>elems = [], props = (\<lambda>k. None)\<rparr>, baseDeck] 1 mulberry32
               (makeSeededRng (seed ((initial (str ''abc''))\<lparr>topic := str ''x''\<rparr>))) of
        (q2, h2', s2) \<Rightarrow> h1' ! q1 = h2' ! q2)
   \<and> deck (initial (str ''abc'')) = deck ((initial (str ''abc''))\<lparr>topic := str ''x''\<rparr>)
   \<and> isReversed (initial (str ''abc'')) (str ''M-0'')
       = isReversed ((initial (str ''abc''))\<lparr>topic := str ''x''\<rparr>) (str ''M-0'')"
  using seeded_pipeline_deterministic
    [of 0 "[baseDeck]" 1 "[\<lparr>elems = [], props = (\<lambda>k. None)\<rparr>, baseDeck]"
        "initial (str ''abc'')" "(initial (str ''abc''))\<lparr>topic := str ''x''\<rparr>" "str ''M-0''"]
  by (simp add: baseDeck_def initial_def)

text \<open>
  Claim C10. \<open>shuffleSeeded\<close> leaves its input alone: the array it returns is at an
  address that did not exist before the call, and every array of the store before the
  call, the input among them, is the same after it, element for element.
\<close>

theorem shuffleSeeded_input_unchanged:
  assumes "p < length h"
  shows "case shuffleSeeded h p rng s of (q, h', s') \<Rightarrow>
           q = length h \<and> q \<noteq> p \<and> h' ! p = h ! p \<and> take (length h) h' = h
           \<and> length h' = Suc (length h)"
proof -
  obtain q h' s' where res: "shuffleSeeded h p rng s = (q, h', s')"
    by (cases "shuffleSeeded h p rng s") auto
  note fr = shuffleSeeded_frame_aux [OF res]
  have "h' ! p = take (length h) h' ! p" using assms by simp
  then have "h' ! p = h ! p" using fr by simp
  moreover have "q \<noteq> p" using fr assms by simp
  ultimately show ?thesis using fr by (simp add: res)
qed

theorem shuffleSeeded_input_unchanged_witness:
  "(0::nat) < length [\<lparr>elems = [Some (1::nat), Some 2, Some 3], props = (\<lambda>k. None)\<rparr>]
   \<and> (case shuffleSeeded [\<lparr>elems = [Some (1::nat), Some 2, Some 3], props = (\<lambda>k. None)\<rparr>] 0
             (\<lambda>s::unit. (Num (1 / 2), s)) () of
        (q, h', s') \<Rightarrow>
          q = length [\<lparr>elems = [Some (1::nat), Some 2, Some 3], props = (\<lambda>k. None)\<rparr>] \<and> q \<noteq> 0
          \<and> h' ! 0 = [\<lparr>elems = [Some (1::nat), Some 2, Some 3], props = (\<lambda>k. None)\<rparr>] ! 0
          \<and> take (length [\<lparr>elems = [Some (1::nat), Some 2, Some 3], props = (\<lambda>k. None)\<rparr>]) h'
              = [\<lparr>elems = [Some (1::nat), Some 2, Some 3], props = (\<lambda>k. None)\<rparr>]
          \<and> length h' = Suc (length [\<lparr>elems = [Some (1::nat), Some 2, Some 3], props = (\<lambda>k. None)\<rparr>]))"
  using shuffleSeeded_input_unchanged
    [of 0 "[\<lparr>elems = [Some (1::nat), Some 2, Some 3], props = (\<lambda>k. None)\<rparr>]"
        "\<lambda>s::unit. (Num (1 / 2), s)" "()"]
  by simp


section \<open>Card orientation\<close>

text \<open>
  Claim C3, as stated, does not hold: the generator for a card is not seeded with the
  seed followed directly by the card id. For the seed \<open>abc\<close> and the card \<open>M-0\<close> the
  flag of the component differs from the flag that the plain concatenation would give.
\<close>

theorem isReversed_concat_counterexample:
  "isReversed (initial (str ''abc'')) (str ''M-0'')
   \<noteq> js_less (fst (mulberry32 (makeSeededRng (seed (initial (str ''abc'')) @ str ''M-0''))))
        (1 / 2)"
  by code_simp

text \<open>
  Claim C3, amended. For every seed and card id, a fresh generator is seeded with the
  seed, the separator \<open>::rev::\<close> and the card id, in this order; its first output is a
  number in \<open>[0, 1)\<close> and the card is reversed exactly when that number is below \<open>0.5\<close>.
\<close>

theorem isReversed_separator:
  "\<exists>r. fst (mulberry32 (makeSeededRng (seed st @ str ''::rev::'' @ cardId))) = Num r
        \<and> 0 \<le> r \<and> r < 1 \<and> (isReversed st cardId \<longleftrightarrow> r < 1 / 2)"
proof -
  obtain r where r: "fst (mulberry32 (makeSeededRng (seed st @ str ''::rev::'' @ cardId))) = Num r"
      "0 \<le> r" "r < 1"
    using mulberry32_unit unfolding unit_rng_def by blast
  then show ?thesis by (auto simp: isReversed_def Let_def)
qed


section \<open>The full-reset handler\<close>

lemma setters_in_scope:
  "''setIsResultOpen'' \<in> set handlerScope \<and> ''setPickedIds'' \<in> set handlerScope
   \<and> ''setPickedSet'' \<notin> set handlerScope \<and> ''setPickedCards'' \<notin> set handlerScope
   \<and> ''setCanInterpret'' \<notin> set handlerScope \<and> ''setDrawCount'' \<notin> set handlerScope"
  by (simp add: handlerScope_def componentNames_def moduleNames_def importedNames_def
        globalNames_def)

lemma run_fullResetHandler:
  "run_calls handlerScope (fullResetHandler s) st
   = (Some (ReferenceError ''setPickedSet''), st\<lparr>isResultOpen := False, pickedIds := []\<rparr>)"
  using setters_in_scope by (simp add: fullResetHandler_def)

text \<open>
  Claim C8 fails on the code. In every state and for every random seed, the handler
  throws a \<open>ReferenceError\<close> at its third statement, \<open>setPickedSet(new Set())\<close>: the
  component declares no such setter (\<open>pickedSet\<close> is a memoised value). Only the two
  updates before it take effect.
\<close>

theorem fullReset_throws:
  "fullReset st s
   = (Some (ReferenceError ''setPickedSet''), st\<lparr>isResultOpen := False, pickedIds := []\<rparr>)"
  unfolding fullReset_def by (rule run_fullResetHandler)


section \<open>Picking cards\<close>

lemma pick_inv:
  "distinct (pickedIds st) \<and> length (pickedIds st) \<le> drawCount
   \<Longrightarrow> distinct (pickedIds (pick st c)) \<and> length (pickedIds (pick st c)) \<le> drawCount"
  by (auto simp: pick_def canPickMore_def)

lemma step_inv:
  assumes "distinct (pickedIds st) \<and> length (pickedIds st) \<le> drawCount"
  shows "distinct (pickedIds (step st e)) \<and> length (pickedIds (step st e)) \<le> drawCount"
proof (cases e)
  case (Pick c)
  then show ?thesis using pick_inv [OF assms] by simp
next
  case (FullReset s)
  then show ?thesis by (simp add: fullReset_def run_fullResetHandler)
next
  case (InterpretEnd outcome)
  then show ?thesis using assms by (simp add: interpret_end_def split: sum.splits)
qed (use assms in \<open>simp_all add: newSeed_def interpret_begin_def\<close>)

lemma reachable_inv:
  "reachable st \<Longrightarrow> distinct (pickedIds st) \<and> length (pickedIds st) \<le> drawCount"
proof (induction rule: reachable.induct)
  case (mounted s)
  show ?case by (simp add: initial_def)
next
  case (after st e)
  then show ?case by (intro step_inv)
qed

lemma length_pickedCards_le: "length (pickedCards st) \<le> length (pickedIds st)"
  by (simp add: pickedCards_def Let_def map_filter_def)

lemma set_deck: "set (deck st) = set buildTarotDeck78"
  using deck_elems [of "seed st"] unfolding deck_def by (metis mset_eq_setD)

lemma pickedCards_found:
  assumes "set (pickedIds st) \<subseteq> card_id ` set buildTarotDeck78"
  shows "length (pickedCards st) = length (pickedIds st)"
proof -
  let ?m = "map_of (rev (map (\<lambda>c. (card_id c, c)) (deck st)))"
  have "?m i \<noteq> None" if "i \<in> set (pickedIds st)" for i
  proof -
    have "i \<in> card_id ` set (deck st)" using that assms set_deck by auto
    then have "i \<in> fst ` set (rev (map (\<lambda>c. (card_id c, c)) (deck st)))" by force
    then show ?thesis by (simp only: map_of_eq_None_iff not_not)
  qed
  then have "filter (\<lambda>x. ?m x \<noteq> None) (pickedIds st) = pickedIds st"
    by (simp add: filter_id_conv)
  then show ?thesis by (simp add: pickedCards_def Let_def map_filter_def)
qed


text \<open>
  Claim C7. In every reachable state the picked ids are pairwise distinct and at most
  \<open>drawCount = 5\<close>; \<open>pick\<close> changes nothing for an id already picked or when five are
  picked; \<open>newSeed\<close> empties the list; and interpretation is enabled only when the
  trimmed topic is non-empty and exactly five cards are picked.
\<close>

theorem spread_picks_invariant:
  assumes "reachable st"
  shows "distinct (pickedIds st) \<and> length (pickedIds st) \<le> drawCount \<and> drawCount = 5
    \<and> (cardId \<in> set (pickedIds st) \<or> length (pickedIds st) = drawCount \<longrightarrow> pick st cardId = st)
    \<and> pickedIds (newSeed st s) = []
    \<and> (canInterpret st \<longrightarrow> length (trim (topic st)) > 0 \<and> length (pickedIds st) = drawCount)"
proof -
  note inv = reachable_inv [OF assms]
  have "pick st cardId = st" if "cardId \<in> set (pickedIds st) \<or> length (pickedIds st) = drawCount"
    using that by (auto simp: pick_def canPickMore_def)
  moreover have "length (pickedIds st) = drawCount" if "canInterpret st"
    using that inv length_pickedCards_le [of st] by (simp add: canInterpret_def)
  moreover have "length (trim (topic st)) > 0" if "canInterpret st"
    using that by (simp add: canInterpret_def)
  ultimately show ?thesis using inv by (simp add: newSeed_def drawCount_def)
qed


lemma exampleRun_fields:
  "pickedIds exampleRun = [str ''M-0'', str ''M-1'', str ''M-2'', str ''M-3'', str ''M-4'']
   \<and> topic exampleRun = str ''love''"
  by (simp add: exampleRun_def initial_def newSeed_def pick_def canPickMore_def drawCount_def str_def)

lemma exampleRun_reachable: "reachable exampleRun"
  unfolding exampleRun_def foldl_Cons foldl_Nil by (intro reachable.intros)

lemma major_ids: "set [str ''M-0'', str ''M-1'', str ''M-2'', str ''M-3'', str ''M-4''] \<subseteq> card_id ` set buildTarotDeck78"
  by (simp add: numToString.simps buildTarotDeck78_def majors_def majorNames_def str_def)

lemma exampleRun_canInterpret: "canInterpret exampleRun"
proof -
  have "length (pickedCards exampleRun) = length (pickedIds exampleRun)"
    using major_ids by (intro pickedCards_found) (simp only: exampleRun_fields)
  moreover have "length (trim (topic exampleRun)) > 0"
    by (simp add: exampleRun_fields trim_def isWhiteSpace_def str_def)
  ultimately show ?thesis by (simp add: canInterpret_def exampleRun_fields drawCount_def)
qed


theorem spread_picks_invariant_witness:
  "reachable exampleRun \<and> canInterpret exampleRun \<and> str ''M-0'' \<in> set (pickedIds exampleRun)
   \<and> distinct (pickedIds exampleRun) \<and> length (pickedIds exampleRun) \<le> drawCount
   \<and> pick exampleRun (str ''M-0'') = exampleRun
   \<and> pickedIds (newSeed exampleRun (str ''s2'')) = []
   \<and> length (trim (topic exampleRun)) > 0 \<and> length (pickedIds exampleRun) = drawCount"
  using spread_picks_invariant [OF exampleRun_reachable, of "str ''M-0''" "str ''s2''"]
    exampleRun_reachable exampleRun_canInterpret
  by (simp add: exampleRun_fields)


section \<open>Admin claims\<close>

lemma str_POST_OPTIONS: "str ''POST'' \<noteq> str ''OPTIONS''"
  by (simp add: str_def)

lemma length_bearer: "length bearer = 7"
  by (simp add: bearer_def str_def)

text \<open>
  Claim C4. For a POST request with a bearer token that verifies, when the write of the
  claims succeeds, the sync answers \<open>{admin: b}\<close> and sets the \<open>admin\<close> claim of the user
  to \<open>b\<close>, where \<open>b\<close> holds exactly when the lowercased email is among the entries of
  \<open>ADMIN_EMAILS\<close>, split at commas, each trimmed and lowercased, the empty ones dropped.
  So an email outside the list never gets \<open>admin: true\<close> and one in the list always
  does. This holds for every lowercase mapping that maps the empty string to itself.
\<close>

theorem syncAdminClaims_allowlist:
  assumes "req_method req = str ''POST''"
    and "req_authorization req = Some (bearer @ token)" and "token \<noteq> []"
    and "verifyIdToken svc token = Inr decoded"
    and "set_claims_error svc (uid decoded) = None"
    and "toLowerCase [] = []"
  shows "syncAdminClaims toLowerCase adminEmails svc cl req =
           (\<lparr>status = 200,
             payload = AdminPayload
               (toLowerCase (orEmpty (email decoded))
                \<in> set (filter (\<lambda>e. e \<noteq> [])
                         (map (\<lambda>entry. toLowerCase (trim entry))
                            (split_js comma (orEmpty adminEmails)))))\<rparr>,
            cl(uid decoded \<mapsto>
               toLowerCase (orEmpty (email decoded))
                \<in> set (filter (\<lambda>e. e \<noteq> [])
                         (map (\<lambda>entry. toLowerCase (trim entry))
                            (split_js comma (orEmpty adminEmails))))))"
proof -
  have hdr: "orEmpty (req_authorization req) = bearer @ token"
    using assms(2,3) by (simp add: orEmpty_def js_or_def)
  have adm: "isAdminEmail toLowerCase adminEmails (orEmpty (email decoded))
             \<longleftrightarrow> toLowerCase (orEmpty (email decoded))
                \<in> set (filter (\<lambda>e. e \<noteq> [])
                         (map (\<lambda>entry. toLowerCase (trim entry))
                            (split_js comma (orEmpty adminEmails))))"
    using assms(6) by (auto simp: isAdminEmail_def getAdminEmailList_def)
  show ?thesis
    using assms(1,3,4,5) str_POST_OPTIONS adm
    by (simp add: syncAdminClaims_def Let_def hdr length_bearer)
qed


theorem syncAdminClaims_allowlist_witness:
  "req_method \<lparr>req_method = str ''POST'', req_authorization = Some (bearer @ str ''tok''),
                req_body = None\<rparr> = str ''POST''
   \<and> req_authorization \<lparr>req_method = str ''POST'',
                         req_authorization = Some (bearer @ str ''tok''), req_body = None\<rparr>
       = Some (bearer @ str ''tok'')
   \<and> str ''tok'' \<noteq> []
   \<and> verifyIdToken (acceptingAuth \<lparr>uid = str ''u1'', email = Some (str ''ADMIN@x.com'')\<rparr>) (str ''tok'')
       = Inr \<lparr>uid = str ''u1'', email = Some (str ''ADMIN@x.com'')\<rparr>
   \<and> set_claims_error (acceptingAuth \<lparr>uid = str ''u1'', email = Some (str ''ADMIN@x.com'')\<rparr>) (str ''u1'')
       = None
   \<and> asciiLower [] = []
   \<and> syncAdminClaims asciiLower (Some (str '' Admin@X.com ,, boss@y.org''))
         (acceptingAuth \<lparr>uid = str ''u1'', email = Some (str ''ADMIN@x.com'')\<rparr>) Map.empty
         \<lparr>req_method = str ''POST'', req_authorization = Some (bearer @ str ''tok''),
          req_body = None\<rparr>
       = (\<lparr>status = 200, payload = AdminPayload True\<rparr>, [str ''u1'' \<mapsto> True])"
proof -
  have mem: "asciiLower (orEmpty (Some (str ''ADMIN@x.com'')))
      \<in> set (filter (\<lambda>e. e \<noteq> [])
               (map (\<lambda>entry. asciiLower (trim entry))
                  (split_js comma (orEmpty (Some (str '' Admin@X.com ,, boss@y.org''))))))"
    by code_simp
  show ?thesis
    using syncAdminClaims_allowlist
      [of "\<lparr>req_method = str ''POST'', req_authorization = Some (bearer @ str ''tok''),
            req_body = None\<rparr>"
          "str ''tok''"
          "acceptingAuth \<lparr>uid = str ''u1'', email = Some (str ''ADMIN@x.com'')\<rparr>"
          "\<lparr>uid = str ''u1'', email = Some (str ''ADMIN@x.com'')\<rparr>"
          asciiLower "Some (str '' Admin@X.com ,, boss@y.org'')" Map.empty]
      mem
    by (simp add: acceptingAuth_def asciiLower_def str_def)
qed

section \<open>The interpretation endpoint\<close>

lemma interpretOpenAI_ok:
  assumes "truthy (OPENAI_API_KEY env)"
    and "openai_fetch be (orEmpty (OPENAI_API_KEY env))
           (orEmpty (js_or (OPENAI_MODEL env) (Some (str ''gpt-4o-mini'')))) p = Inr response"
    and "resp_ok response"
    and "resp_json response = Inr (Some \<lparr>output_text = Some t, output_items = items\<rparr>)"
    and "t \<noteq> []"
  shows "interpretOpenAI env be p = Inr (textResponse t)"
  using assms by (simp add: interpretOpenAI_def openaiOutputText_def Let_def)

lemma interpretOpenAI_not_ok:
  assumes "truthy (OPENAI_API_KEY env)"
    and "openai_fetch be (orEmpty (OPENAI_API_KEY env))
           (orEmpty (js_or (OPENAI_MODEL env) (Some (str ''gpt-4o-mini'')))) p = Inr response"
    and "\<not> resp_ok response"
  shows "interpretOpenAI env be p
         = Inr (errorResponse 500
             (str ''OpenAI request failed: '' @ numToString (resp_status response) @ str '' ''
              @ (case resp_text response of None \<Rightarrow> [] | Some x \<Rightarrow> x)))"
  using assms by (simp add: interpretOpenAI_def Let_def)

lemma interpretOpenAI_shape:
  "interpretOpenAI env be p = Inr R \<Longrightarrow>
     (\<exists>t. t \<noteq> [] \<and> R = textResponse t) \<or> (\<exists>e. R = errorResponse 500 e)"
  by (auto simp: interpretOpenAI_def Let_def split: if_splits sum.splits)

lemma interpretVertex_shape:
  "interpretVertex env be project location p = Inr R \<Longrightarrow>
     (\<exists>t. t \<noteq> [] \<and> R = textResponse t) \<or> (\<exists>e. R = errorResponse 500 e)"
  by (auto simp: interpretVertex_def Let_def split: if_splits sum.splits option.splits prod.splits)

lemma interpretEndpoint_shape:
  "(\<exists>t. t \<noteq> [] \<and> interpretEndpoint env be req = textResponse t)
   \<or> (\<exists>c e. interpretEndpoint env be req = errorResponse c e \<and> (c = 400 \<or> c = 405 \<or> c = 500))"
proof (cases "req_method req \<noteq> str ''POST''")
  case True
  then show ?thesis by (auto simp: interpretEndpoint_def)
next
  case post: False
  show ?thesis
  proof (cases "truthy (gcpProject env)")
    case False
    with post show ?thesis by (auto simp: interpretEndpoint_def Let_def)
  next
    case proj: True
    show ?thesis
    proof (cases "prompt (bodyOf req)")
      case (Str p)
      show ?thesis
      proof (cases "p = []")
        case True
        with post proj Str show ?thesis by (auto simp: interpretEndpoint_def Let_def)
      next
        case False
        show ?thesis
        proof (cases "provider_field (bodyOf req) = Str (str ''openai'')")
          case True
          with post proj Str \<open>p \<noteq> []\<close> interpretOpenAI_shape [of env be p] show ?thesis
            by (cases "interpretOpenAI env be p") (auto simp: interpretEndpoint_def Let_def)
        next
          case False
          with post proj Str \<open>p \<noteq> []\<close>
            interpretVertex_shape [of env be "orEmpty (gcpProject env)" "orEmpty (vertexLocation env)" p]
          show ?thesis
            by (cases "interpretVertex env be (orEmpty (gcpProject env)) (orEmpty (vertexLocation env)) p")
               (auto simp: interpretEndpoint_def Let_def)
        qed
      qed
    qed (use post proj in \<open>auto simp: interpretEndpoint_def Let_def\<close>)
  qed
qed

text \<open>
  Claim C6, as stated, does not hold: the endpoint checks the project before it looks at
  the body. With no project variable set, a POST without a prompt is answered with
  status 500 and \<open>GCP project is not set\<close>, not with status 400.
\<close>

theorem interpretEndpoint_no_project_counterexample:
  "prompt (bodyOf \<lparr>req_method = str ''POST'', req_authorization = None, req_body = None\<rparr>) = Absent
   \<and> interpretEndpoint noEnv (failingBackend (ErrorObj (str ''down'')))
        \<lparr>req_method = str ''POST'', req_authorization = None, req_body = None\<rparr>
      = \<lparr>status = 500, payload = ErrorPayload (str ''GCP project is not set'')\<rparr>
   \<and> interpretEndpoint noEnv (failingBackend (ErrorObj (str ''down'')))
        \<lparr>req_method = str ''POST'', req_authorization = None, req_body = None\<rparr>
      \<noteq> \<lparr>status = 400, payload = ErrorPayload (str ''Invalid prompt'')\<rparr>"
  by (simp add: interpretEndpoint_def bodyOf_def noEnv_def gcpProject_def js_or_def errorResponse_def Let_def)

text \<open>
  Claim C6, amended. Every response of the endpoint is \<open>{text}\<close> with status 200 and a
  non-empty text, or \<open>{error}\<close> with status 400, 405 or 500. A request that is not a POST
  gets 405 with \<open>{error}\<close>. A POST, when a project is configured, whose prompt is missing,
  not a string or the empty string gets 400 with \<open>{error: "Invalid prompt"}\<close>.
\<close>

theorem interpretEndpoint_responses:
  "((\<exists>t. t \<noteq> [] \<and> interpretEndpoint env be req = \<lparr>status = 200, payload = TextPayload t\<rparr>)
    \<or> (\<exists>c e. interpretEndpoint env be req = \<lparr>status = c, payload = ErrorPayload e\<rparr>
              \<and> (c = 400 \<or> c = 405 \<or> c = 500)))
   \<and> (req_method req \<noteq> str ''POST'' \<longrightarrow>
        interpretEndpoint env be req
        = \<lparr>status = 405, payload = ErrorPayload (str ''Method Not Allowed'')\<rparr>)
   \<and> (req_method req = str ''POST'' \<and> truthy (gcpProject env)
        \<and> (\<forall>p. prompt (bodyOf req) = Str p \<longrightarrow> p = []) \<longrightarrow>
        interpretEndpoint env be req
        = \<lparr>status = 400, payload = ErrorPayload (str ''Invalid prompt'')\<rparr>)"
proof (intro conjI impI)
  show "(\<exists>t. t \<noteq> [] \<and> interpretEndpoint env be req = \<lparr>status = 200, payload = TextPayload t\<rparr>)
    \<or> (\<exists>c e. interpretEndpoint env be req = \<lparr>status = c, payload = ErrorPayload e\<rparr>
              \<and> (c = 400 \<or> c = 405 \<or> c = 500))"
    using interpretEndpoint_shape [of env be req]
    by (simp add: textResponse_def errorResponse_def)
next
  assume "req_method req \<noteq> str ''POST''"
  then show "interpretEndpoint env be req
        = \<lparr>status = 405, payload = ErrorPayload (str ''Method Not Allowed'')\<rparr>"
    by (simp add: interpretEndpoint_def errorResponse_def)
next
  assume a: "req_method req = str ''POST'' \<and> truthy (gcpProject env)
        \<and> (\<forall>p. prompt (bodyOf req) = Str p \<longrightarrow> p = [])"
  then show "interpretEndpoint env be req
        = \<lparr>status = 400, payload = ErrorPayload (str ''Invalid prompt'')\<rparr>"
    by (cases "prompt (bodyOf req)") (simp_all add: interpretEndpoint_def errorResponse_def Let_def)
qed


theorem interpretEndpoint_responses_witness:
  "req_method \<lparr>req_method = str ''GET'', req_authorization = None, req_body = None\<rparr> \<noteq> str ''POST''
   \<and> interpretEndpoint projectEnv (failingBackend (ErrorObj (str ''down'')))
        \<lparr>req_method = str ''GET'', req_authorization = None, req_body = None\<rparr>
      = \<lparr>status = 405, payload = ErrorPayload (str ''Method Not Allowed'')\<rparr>
   \<and> req_method \<lparr>req_method = str ''POST'', req_authorization = None, req_body = None\<rparr> = str ''POST''
   \<and> truthy (gcpProject projectEnv)
   \<and> prompt (bodyOf \<lparr>req_method = str ''POST'', req_authorization = None, req_body = None\<rparr>) = Absent
   \<and> interpretEndpoint projectEnv (failingBackend (ErrorObj (str ''down'')))
        \<lparr>req_method = str ''POST'', req_authorization = None, req_body = None\<rparr>
      = \<lparr>status = 400, payload = ErrorPayload (str ''Invalid prompt'')\<rparr>"
  using interpretEndpoint_responses
      [of projectEnv "failingBackend (ErrorObj (str ''down''))"
          "\<lparr>req_method = str ''GET'', req_authorization = None, req_body = None\<rparr>"]
    interpretEndpoint_responses
      [of projectEnv "failingBackend (ErrorObj (str ''down''))"
          "\<lparr>req_method = str ''POST'', req_authorization = None, req_body = None\<rparr>"]
  by (simp add: bodyOf_def projectEnv_def noEnv_def gcpProject_def js_or_def str_def)



section \<open>From the component to the endpoint and back\<close>

lemma dropWhile_fixed: "xs = [] \<or> \<not> P (hd xs) \<Longrightarrow> dropWhile P xs = xs"
  by (cases xs) auto

lemma dropWhile_head: "dropWhile P xs = [] \<or> \<not> P (hd (dropWhile P xs))"
  by (metis hd_dropWhile)

lemma trim_trim: "trim (trim s) = trim s"
proof -
  define u where "u = dropWhile isWhiteSpace s"
  define v where "v = rev (dropWhile isWhiteSpace (rev u))"
  have u: "u = [] \<or> \<not> isWhiteSpace (hd u)"
    unfolding u_def by (rule dropWhile_head)
  have split: "u = v @ rev (takeWhile isWhiteSpace (rev u))"
    unfolding v_def by (metis rev_append rev_rev_ident takeWhile_dropWhile_id)
  have "v = [] \<or> \<not> isWhiteSpace (hd v)"
  proof (cases "v = []")
    case False
    then have "hd u = hd v" using split by (metis hd_append2)
    moreover have "u \<noteq> []" using False split by auto
    ultimately show ?thesis using u by simp
  qed simp
  then have 1: "dropWhile isWhiteSpace v = v" by (rule dropWhile_fixed)
  have 2: "rev (dropWhile isWhiteSpace (rev v)) = v"
    unfolding v_def by (simp add: dropWhile_idem)
  have "trim s = v" by (simp add: trim_def u_def v_def)
  moreover have "trim v = v" using 1 2 by (simp add: trim_def)
  ultimately show ?thesis by simp
qed

lemma buildPrompt_nonempty: "buildPrompt st \<noteq> []"
  by (simp add: buildPrompt_def promptIntro_def)

lemma modelCandidates_nonempty: "modelCandidates env \<noteq> []"
  by (simp add: modelCandidates_def)

lemma vertex_loop_success:
  assumes "\<forall>m. gen m = Inr result" and "vertexOutputText result \<noteq> []" and "ms \<noteq> []"
  shows "vertex_loop gen ms le = Inr (vertexOutputText result, le)"
  using assms by (cases ms) (simp_all add: Let_def)

lemma vertex_loop_failure:
  assumes "\<forall>m. gen m = Inl err"
  shows "vertex_loop gen ms le = Inl err \<or> (\<exists>le'. vertex_loop gen ms le = Inr ([], le'))"
  using assms
proof (induction ms arbitrary: le)
  case Nil
  then show ?case by simp
next
  case (Cons m ms)
  show ?case
  proof (cases "\<not> includes_js (case err of ErrorObj m \<Rightarrow> m | NonError v \<Rightarrow> v) (str ''404'')
                \<and> \<not> includes_js (case err of ErrorObj m \<Rightarrow> m | NonError v \<Rightarrow> v) (str ''NOT_FOUND'')")
    case True
    then show ?thesis using Cons.prems by (simp add: Let_def)
  next
    case False
    then have "vertex_loop gen (m # ms) le = vertex_loop gen ms (Some err)"
      using Cons.prems by (auto simp: Let_def)
    then show ?thesis using Cons.IH [OF Cons.prems, of "Some err"] by simp
  qed
qed

lemma interpretEndpoint_vertex:
  assumes "truthy (gcpProject env)"
  shows "interpretEndpoint env be (interpretRequest st)
         = (case interpretVertex env be (orEmpty (gcpProject env)) (orEmpty (vertexLocation env))
                   (buildPrompt st) of
              Inl err \<Rightarrow> errorResponse 500 (errMessage err) | Inr res \<Rightarrow> res)"
proof -
  have "str ''gemini'' \<noteq> str ''openai''" by (simp add: str_def)
  then show ?thesis
    using assms buildPrompt_nonempty [of st]
    by (simp add: interpretEndpoint_def interpretRequest_def bodyOf_def provider_def Let_def)
qed

lemma endpoint_success:
  assumes "truthy (gcpProject env)" and "\<forall>project location. vertex_new be project location = None"
    and "\<forall>project location model.
           vertex_generate be project location model (buildPrompt st) = Inr (Some [Some [Some t]])"
    and "trim t \<noteq> []"
  shows "interpretEndpoint env be (interpretRequest st) = textResponse (trim t)"
proof -
  have out: "vertexOutputText (Some [Some [Some t]]) = trim t"
    by (simp add: vertexOutputText_def)
  have "vertex_loop (\<lambda>modelName. vertex_generate be (orEmpty (gcpProject env))
            (orEmpty (vertexLocation env)) modelName (buildPrompt st)) (modelCandidates env) None
        = Inr (trim t, None)"
    using vertex_loop_success [of _ "Some [Some [Some t]]" "modelCandidates env" None]
      assms(3,4) modelCandidates_nonempty [of env] out by simp
  then show ?thesis
    using assms by (simp add: interpretEndpoint_vertex interpretVertex_def)
qed

lemma endpoint_failure:
  assumes "truthy (gcpProject env)" and "\<forall>project location. vertex_new be project location = None"
    and "\<forall>project location model. vertex_generate be project location model (buildPrompt st) = Inl err"
  shows "\<exists>msg. interpretEndpoint env be (interpretRequest st) = errorResponse 500 msg"
proof -
  let ?gen = "\<lambda>modelName. vertex_generate be (orEmpty (gcpProject env))
            (orEmpty (vertexLocation env)) modelName (buildPrompt st)"
  from vertex_loop_failure [of ?gen err "modelCandidates env" None] assms(3)
  consider "vertex_loop ?gen (modelCandidates env) None = Inl err"
    | le where "vertex_loop ?gen (modelCandidates env) None = Inr ([], le)"
    by auto
  then show ?thesis
  proof cases
    case 1
    then have "interpretEndpoint env be (interpretRequest st) = errorResponse 500 (errMessage err)"
      using assms(1,2) by (simp add: interpretEndpoint_vertex interpretVertex_def)
    then show ?thesis by blast
  next
    case 2
    then have "interpretEndpoint env be (interpretRequest st)
        = errorResponse 500 (case le of Some (ErrorObj m) \<Rightarrow> m
                             | _ \<Rightarrow> str ''No output_text in response'')"
      using assms(1,2) by (simp add: interpretEndpoint_vertex interpretVertex_def Let_def)
    then show ?thesis by blast
  qed
qed

lemma client_shows_text:
  assumes "canInterpret st" and "t \<noteq> []"
  shows "interpretClient st (Inr (received serialize (textResponse t)))
         = st\<lparr>isResultOpen := True, isInterpreting := False, errorText := None,
              resultText := Some (trim t)\<rparr>"
  using assms
  by (simp add: interpretClient_def canInterpret_def interpret_begin_def interpret_end_def
        interpret_try_def received_def textResponse_def c_ok_def Let_def)

lemma client_shows_error:
  assumes "canInterpret st"
  shows "interpretClient st (Inr (received serialize (errorResponse 500 msg)))
         = st\<lparr>isResultOpen := True, isInterpreting := False, resultText := None,
              errorText := Some (requestFailed @ str ''500 '' @ serialize (ErrorPayload msg))\<rparr>"
proof -
  have "numToString 500 @ str '' '' = str ''500 ''" by (simp add: numToString.simps str_def)
  then show ?thesis
    using assms
    by (simp add: interpretClient_def canInterpret_def interpret_begin_def interpret_end_def
        interpret_try_def received_def errorResponse_def c_ok_def Let_def)
qed

text \<open>
  Claim C5, as stated, does not hold: the endpoint does not return the text of the backend
  verbatim. With a mocked backend whose output text is \<open>hi\<close> preceded by a blank, the
  response to the request of the example run carries \<open>hi\<close> without the blank.
\<close>

theorem interpret_verbatim_counterexample:
  "interpretEndpoint projectEnv (mockBackend (str '' hi'')) (interpretRequest exampleRun)
   = \<lparr>status = 200, payload = TextPayload (str ''hi'')\<rparr>
   \<and> interpretEndpoint projectEnv (mockBackend (str '' hi'')) (interpretRequest exampleRun)
     \<noteq> \<lparr>status = 200, payload = TextPayload (str '' hi'')\<rparr>"
proof -
  have t: "trim (str '' hi'') = str ''hi''"
    by (simp add: trim_def str_def isWhiteSpace_def)
  have ne: "trim (str '' hi'') \<noteq> []" unfolding t by (simp add: str_def)
  have p: "truthy (gcpProject projectEnv)"
    by (simp add: projectEnv_def noEnv_def gcpProject_def js_or_def str_def)
  have "interpretEndpoint projectEnv (mockBackend (str '' hi'')) (interpretRequest exampleRun)
        = textResponse (trim (str '' hi''))"
    by (rule endpoint_success [OF p]) (simp_all add: mockBackend_def ne)
  then have "interpretEndpoint projectEnv (mockBackend (str '' hi'')) (interpretRequest exampleRun)
        = \<lparr>status = 200, payload = TextPayload (str ''hi'')\<rparr>"
    by (simp add: t textResponse_def)
  moreover have "str ''hi'' \<noteq> str '' hi''" by (simp add: str_def)
  ultimately show ?thesis by simp
qed


text \<open>
  Claim C5, amended. Let the component be ready to interpret (a non-blank topic and five
  picked cards), a project be configured and the Vertex AI client be constructed. When
  the mocked backend answers every model with the output text \<open>t\<close> and \<open>t\<close> is not blank,
  the endpoint returns status 200 with \<open>{text}\<close> holding \<open>t\<close> trimmed, and the result page
  shows that trimmed text. When the backend call fails for every model, the endpoint
  returns status 500 with an \<open>{error}\<close> payload and the result page shows an error string
  (the prefix of the client, the status and the body of the response) instead of a result.
\<close>

theorem interpret_end_to_end:
  assumes "canInterpret st" and "truthy (gcpProject env)"
    and "\<forall>project location. vertex_new be project location = None"
  shows "((\<forall>project location model.
             vertex_generate be project location model (buildPrompt st)
             = Inr (Some [Some [Some t]])) \<and> trim t \<noteq> [] \<longrightarrow>
          interpretEndpoint env be (interpretRequest st)
          = \<lparr>status = 200, payload = TextPayload (trim t)\<rparr>
          \<and> resultPage (interpretClient st
               (Inr (received serialize (interpretEndpoint env be (interpretRequest st)))))
            = ShowResult (trim t))
       \<and> ((\<forall>project location model.
             vertex_generate be project location model (buildPrompt st) = Inl err) \<longrightarrow>
          (\<exists>msg. interpretEndpoint env be (interpretRequest st)
                  = \<lparr>status = 500, payload = ErrorPayload msg\<rparr>
                \<and> resultPage (interpretClient st
                     (Inr (received serialize (interpretEndpoint env be (interpretRequest st)))))
                  = ShowError (requestFailed @ str ''500 '' @ serialize (ErrorPayload msg))))"
proof (intro conjI impI)
  assume a: "(\<forall>project location model.
             vertex_generate be project location model (buildPrompt st)
             = Inr (Some [Some [Some t]])) \<and> trim t \<noteq> []"
  then have e: "interpretEndpoint env be (interpretRequest st) = textResponse (trim t)"
    using endpoint_success [OF assms(2,3)] by blast
  then show "interpretEndpoint env be (interpretRequest st)
          = \<lparr>status = 200, payload = TextPayload (trim t)\<rparr>"
    by (simp add: textResponse_def)
  show "resultPage (interpretClient st
               (Inr (received serialize (interpretEndpoint env be (interpretRequest st)))))
            = ShowResult (trim t)"
    using a client_shows_text [OF assms(1), of "trim t" serialize]
    by (simp add: e trim_trim resultPage_def orEmpty_def js_or_def)
next
  assume a: "\<forall>project location model.
             vertex_generate be project location model (buildPrompt st) = Inl err"
  from endpoint_failure [OF assms(2,3) a]
  obtain msg where e: "interpretEndpoint env be (interpretRequest st) = errorResponse 500 msg"
    by blast
  have nonempty: "requestFailed @ str ''500 '' @ serialize (ErrorPayload msg) \<noteq> []"
    by (simp add: requestFailed_def)
  have "resultPage (interpretClient st
                     (Inr (received serialize (interpretEndpoint env be (interpretRequest st)))))
                  = ShowError (requestFailed @ str ''500 '' @ serialize (ErrorPayload msg))"
    using client_shows_error [OF assms(1), of serialize msg] nonempty
    by (simp add: e resultPage_def orEmpty_def js_or_def)
  then show "\<exists>msg. interpretEndpoint env be (interpretRequest st)
                  = \<lparr>status = 500, payload = ErrorPayload msg\<rparr>
                \<and> resultPage (interpretClient st
                     (Inr (received serialize (interpretEndpoint env be (interpretRequest st)))))
                  = ShowError (requestFailed @ str ''500 '' @ serialize (ErrorPayload msg))"
    using e by (auto simp: errorResponse_def)
qed


theorem interpret_end_to_end_witness:
  "canInterpret exampleRun \<and> truthy (gcpProject projectEnv)
   \<and> vertex_new (mockBackend (str '' hi '')) (str ''demo'') (str ''us-central1'') = None
   \<and> vertex_generate (mockBackend (str '' hi '')) (str ''demo'') (str ''us-central1'')
        (str ''gemini-2.0-flash'') (buildPrompt exampleRun) = Inr (Some [Some [Some (str '' hi '')]])
   \<and> trim (str '' hi '') = str ''hi''
   \<and> interpretEndpoint projectEnv (mockBackend (str '' hi '')) (interpretRequest exampleRun)
     = \<lparr>status = 200, payload = TextPayload (str ''hi'')\<rparr>
   \<and> resultPage (interpretClient exampleRun
         (Inr (received (\<lambda>p. str ''{}'') (interpretEndpoint projectEnv (mockBackend (str '' hi ''))
                                    (interpretRequest exampleRun)))))
     = ShowResult (str ''hi'')
   \<and> vertex_generate (failingBackend (ErrorObj (str ''quota''))) (str ''demo'')
        (str ''us-central1'') (str ''gemini-2.0-flash'') (buildPrompt exampleRun)
     = Inl (ErrorObj (str ''quota''))
   \<and> (\<exists>msg. interpretEndpoint projectEnv (failingBackend (ErrorObj (str ''quota'')))
               (interpretRequest exampleRun)
             = \<lparr>status = 500, payload = ErrorPayload msg\<rparr>
           \<and> resultPage (interpretClient exampleRun
                 (Inr (received (\<lambda>p. str ''{}'') (interpretEndpoint projectEnv
                         (failingBackend (ErrorObj (str ''quota''))) (interpretRequest exampleRun)))))
             = ShowError (requestFailed @ str ''500 '' @ str ''{}''))"
proof -
  have t: "trim (str '' hi '') = str ''hi''"
    by (simp add: trim_def str_def isWhiteSpace_def)
  have ne: "trim (str '' hi '') \<noteq> []" unfolding t by (simp add: str_def)
  have p: "truthy (gcpProject projectEnv)"
    by (simp add: projectEnv_def noEnv_def gcpProject_def js_or_def str_def)
  have new1: "\<forall>project location. vertex_new (mockBackend (str '' hi '')) project location = None"
    by (simp add: mockBackend_def)
  have gen1: "\<forall>project location model.
      vertex_generate (mockBackend (str '' hi '')) project location model (buildPrompt exampleRun)
      = Inr (Some [Some [Some (str '' hi '')]])"
    by (simp add: mockBackend_def)
  have new2: "\<forall>project location.
      vertex_new (failingBackend (ErrorObj (str ''quota''))) project location = None"
    by (simp add: failingBackend_def)
  have gen2: "\<forall>project location model.
      vertex_generate (failingBackend (ErrorObj (str ''quota''))) project location model
        (buildPrompt exampleRun) = Inl (ErrorObj (str ''quota''))"
    by (simp add: failingBackend_def)
  from interpret_end_to_end [OF exampleRun_canInterpret p new1, of "str '' hi ''"
      "\<lambda>p. str ''{}''" "ErrorObj (str ''quota'')"] gen1 ne
  have A: "interpretEndpoint projectEnv (mockBackend (str '' hi '')) (interpretRequest exampleRun)
     = \<lparr>status = 200, payload = TextPayload (trim (str '' hi ''))\<rparr>
   \<and> resultPage (interpretClient exampleRun
         (Inr (received (\<lambda>p. str ''{}'') (interpretEndpoint projectEnv (mockBackend (str '' hi ''))
                                    (interpretRequest exampleRun)))))
     = ShowResult (trim (str '' hi ''))"
    by blast
  from interpret_end_to_end [OF exampleRun_canInterpret p new2, of "str '' hi ''"
      "\<lambda>p. str ''{}''" "ErrorObj (str ''quota'')"] gen2
  have B: "\<exists>msg. interpretEndpoint projectEnv (failingBackend (ErrorObj (str ''quota'')))
               (interpretRequest exampleRun)
             = \<lparr>status = 500, payload = ErrorPayload msg\<rparr>
           \<and> resultPage (interpretClient exampleRun
                 (Inr (received (\<lambda>p. str ''{}'') (interpretEndpoint projectEnv
                         (failingBackend (ErrorObj (str ''quota''))) (interpretRequest exampleRun)))))
             = ShowError (requestFailed @ str ''500 '' @ str ''{}'')"
    by blast
  show ?thesis
    using A [unfolded t] B exampleRun_canInterpret p t new1 gen1 gen2
    by (intro conjI) blast+
qed

end
